theory Spec2Isabelle
  imports Complex_Main
begin

section \<open>GCRS2ITRS: the MEX gateway of the GCRS to ITRS conversion\<close>

text \<open>
  The source is the single C function \<open>mexFunction\<close> of \<open>GCRS2ITRS.c\<close>. A C \<open>double\<close> is
  modelled as a \<open>real\<close>: the theorems below are about which quantities are combined by
  which operation and in which order, not about rounding. The routines of the SOFA
  library that evaluate astronomical models, the helpers of \<open>MexValidation.h\<close> and the
  MATLAB function \<open>getEOP\<close> are not part of the source file; they are taken as
  parameters, collected in the record \<open>collaborators\<close>.
\<close>

subsection \<open>Vectors, matrices and MATLAB arrays\<close>

type_synonym vec3 = "real \<times> real \<times> real"

text \<open>A \<open>double[3][3]\<close>, as its three rows.\<close>

type_synonym mat3 = "vec3 \<times> vec3 \<times> vec3"

datatype mxClassID = mxDOUBLE_CLASS | mxSINGLE_CLASS | mxCHAR_CLASS | mxCELL_CLASS

text \<open>
  An \<open>mxArray\<close>, as far as the gateway looks at it: its row and column counts, what the
  validation helpers may inspect (class and complexity) and its data in column-major
  order, which is the order in which the pointer returned by \<open>mxGetData\<close> is indexed.
\<close>

record mxArray =
  mxGetM :: nat
  mxGetN :: nat
  mxGetClassID :: mxClassID
  mxIsComplex :: bool
  mxGetData :: "real list"

definition mxIsEmpty :: "mxArray \<Rightarrow> bool" where
  "mxIsEmpty a = (mxGetM a * mxGetN a = 0)"

subsection \<open>Errors, warnings and the trace of collaborator calls\<close>

text \<open>
  \<open>mexErrMsgTxt\<close> ends the call with a message. A failure inside a helper of
  \<open>MexValidation.h\<close> or inside the MATLAB call of \<open>getEOP\<close> ends the call too, with a
  message the source file does not contain.
\<close>

datatype mexError = ErrMsgTxt string | MexValidationError | MatlabCallError

text \<open>
  What a call does besides returning: the collaborators it invokes and the warnings it
  prints, in order.
\<close>

datatype event =
    Call_iauTttai | Call_iauTaiutc | WarnMsgTxt string | Call_getEOP
  | Call_iauTtut1 | Call_iauXys06a | Call_iauC2ixys | Call_iauEra00 | Call_iauSp00
  | Call_iauPom00 | Call_iauC2tcio | Call_getScalarMatlabClassConst

type_synonym 'a mex = "event list \<times> (mexError + 'a)"

definition mexReturn :: "'a \<Rightarrow> 'a mex" where
  "mexReturn x = ([], Inr x)"

definition mexAbort :: "mexError \<Rightarrow> 'a mex" where
  "mexAbort e = ([], Inl e)"

definition mexErrMsgTxt :: "string \<Rightarrow> 'a mex" where
  "mexErrMsgTxt msg = mexAbort (ErrMsgTxt msg)"

definition mexLog :: "event \<Rightarrow> unit mex" where
  "mexLog e = ([e], Inr ())"

definition mexWarnMsgTxt :: "string \<Rightarrow> unit mex" where
  "mexWarnMsgTxt msg = mexLog (WarnMsgTxt msg)"

text \<open>Sequencing: an error ends the call, keeping the trace up to it.\<close>

definition mexBind :: "'a mex \<Rightarrow> ('a \<Rightarrow> 'b mex) \<Rightarrow> 'b mex" where
  "mexBind m f =
     (case snd m of
        Inl e \<Rightarrow> (fst m, Inl e)
      | Inr a \<Rightarrow> (fst m @ fst (f a), snd (f a)))"

subsection \<open>Collaborators\<close>

text \<open>
  The parts the source calls and does not define. The SOFA routines return their
  outputs as a tuple, the status first where the source reads it. \<open>getEOP\<close> returns its
  five MATLAB arrays, or nothing when the MATLAB call itself fails.
\<close>

record collaborators =
  checkRealDoubleArray :: "mxArray \<Rightarrow> bool"
  getDoubleFromMatlab :: "mxArray \<Rightarrow> real option"
  iauTttai :: "real \<Rightarrow> real \<Rightarrow> int \<times> real \<times> real"
  iauTaiutc :: "real \<Rightarrow> real \<Rightarrow> int \<times> real \<times> real"
  getEOP :: "real \<Rightarrow> real \<Rightarrow> (mxArray \<times> mxArray \<times> mxArray \<times> mxArray \<times> mxArray) option"
  iauTtut1 :: "real \<Rightarrow> real \<Rightarrow> real \<Rightarrow> real \<times> real"
  iauXys06a :: "real \<Rightarrow> real \<Rightarrow> real \<times> real \<times> real"
  iauC2ixys :: "real \<Rightarrow> real \<Rightarrow> real \<Rightarrow> mat3"
  iauEra00 :: "real \<Rightarrow> real \<Rightarrow> real"
  iauSp00 :: "real \<Rightarrow> real \<Rightarrow> real"
  iauPom00 :: "real \<Rightarrow> real \<Rightarrow> real \<Rightarrow> mat3"
  iauC2tcio :: "mat3 \<Rightarrow> real \<Rightarrow> mat3 \<Rightarrow> mat3"
  IERSMeanEarthRotationRate :: real

definition mexCheckRealDoubleArray :: "collaborators \<Rightarrow> mxArray \<Rightarrow> unit mex" where
  "mexCheckRealDoubleArray env a =
     (if checkRealDoubleArray env a then mexReturn () else mexAbort MexValidationError)"

definition mexGetDoubleFromMatlab :: "collaborators \<Rightarrow> mxArray \<Rightarrow> real mex" where
  "mexGetDoubleFromMatlab env a =
     (case getDoubleFromMatlab env a of
        None \<Rightarrow> mexAbort MexValidationError
      | Some v \<Rightarrow> mexReturn v)"

subsection \<open>The three vector primitives\<close>

text \<open>
  Modelled from the spec: the SOFA primitives \<open>iauRxp\<close>, \<open>iauPxp\<close> and \<open>iauPmp\<close>, which
  the source calls and does not define. The spec names them as the product of a matrix
  with a vector (\<open>v_out = R \<cdot> v_in\<close>), the cross product and the difference of two
  vectors.
\<close>

definition iauRxp :: "mat3 \<Rightarrow> vec3 \<Rightarrow> vec3" where
  "iauRxp r p =
     (case r of ((r00, r01, r02), (r10, r11, r12), (r20, r21, r22)) \<Rightarrow>
      case p of (p0, p1, p2) \<Rightarrow>
        (r00 * p0 + r01 * p1 + r02 * p2,
         r10 * p0 + r11 * p1 + r12 * p2,
         r20 * p0 + r21 * p1 + r22 * p2))"

definition iauPxp :: "vec3 \<Rightarrow> vec3 \<Rightarrow> vec3" where
  "iauPxp a b =
     (case a of (xa, ya, za) \<Rightarrow>
      case b of (xb, yb, zb) \<Rightarrow>
        (ya * zb - za * yb, za * xb - xa * zb, xa * yb - ya * xb))"

definition iauPmp :: "vec3 \<Rightarrow> vec3 \<Rightarrow> vec3" where
  "iauPmp a b =
     (case a of (xa, ya, za) \<Rightarrow>
      case b of (xb, yb, zb) \<Rightarrow> (xa - xb, ya - yb, za - zb))"

text \<open>Reading and writing three consecutive doubles through a pointer into an array.\<close>

definition load3 :: "real list \<Rightarrow> nat \<Rightarrow> vec3" where
  "load3 xs off = (xs ! off, xs ! (off + 1), xs ! (off + 2))"

definition store3 :: "real list \<Rightarrow> nat \<Rightarrow> vec3 \<Rightarrow> real list" where
  "store3 xs off v =
     (case v of (a, b, c) \<Rightarrow> xs[off := a, off + 1 := b, off + 2 := c])"

subsection \<open>The Earth orientation parameters of a call\<close>

text \<open>The six local variables \<open>xp, yp, dX, dY, deltaT, LOD\<close>.\<close>

record eop =
  xp :: real
  yp :: real
  dX :: real
  dY :: real
  deltaT :: real
  LOD :: real

text \<open>The test of line 137: some value of \<open>getEOP\<close> will be needed.\<close>

definition needsEOP :: "mxArray list \<Rightarrow> bool" where
  "needsEOP prhs =
     (length prhs \<le> 6 \<or> mxIsEmpty (prhs ! 3) \<or> mxIsEmpty (prhs ! 4)
      \<or> mxIsEmpty (prhs ! 5) \<or> mxIsEmpty (prhs ! 6))"

text \<open>
  Lines 162 to 197: \<open>getEOP\<close> is called at the UTC date and its outputs are checked
  and read.
\<close>

definition fetchEOP :: "collaborators \<Rightarrow> real \<Rightarrow> real \<Rightarrow> eop mex" where
  "fetchEOP env UTC1 UTC2 =
     mexBind (mexLog Call_getEOP) (\<lambda>_.
     case getEOP env UTC1 UTC2 of
       None \<Rightarrow> mexAbort MatlabCallError
     | Some (r0, r1, r2, r3, r4) \<Rightarrow>
     mexBind (mexCheckRealDoubleArray env r0) (\<lambda>_.
     mexBind (mexCheckRealDoubleArray env r1) (\<lambda>_.
     mexBind (if mxGetM r0 \<noteq> 2 \<or> mxGetN r0 \<noteq> 1 \<or> mxGetM r1 \<noteq> 2 \<or> mxGetN r1 \<noteq> 1
              then mexErrMsgTxt ''Error using the getEOP function.''
              else mexReturn ()) (\<lambda>_.
     mexBind (mexGetDoubleFromMatlab env r3) (\<lambda>dT.
     mexBind (mexGetDoubleFromMatlab env r4) (\<lambda>lod.
     mexReturn \<lparr>xp = mxGetData r0 ! 0, yp = mxGetData r0 ! 1,
                dX = mxGetData r1 ! 0, dY = mxGetData r1 ! 1,
                deltaT = dT, LOD = lod\<rparr>))))))"

text \<open>
  Lines 137 to 198. Without a lookup the six variables keep the zeros they were
  initialised with.
\<close>

definition lookupEOP :: "collaborators \<Rightarrow> mxArray list \<Rightarrow> real \<Rightarrow> real \<Rightarrow> eop mex" where
  "lookupEOP env prhs TT1 TT2 =
     (if needsEOP prhs then
        mexBind (mexLog Call_iauTttai) (\<lambda>_.
        case iauTttai env TT1 TT2 of (retVal, TAI1, TAI2) \<Rightarrow>
        mexBind (if retVal \<noteq> 0 then mexErrMsgTxt ''An error occurred computing TAI.''
                 else mexReturn ()) (\<lambda>_.
        mexBind (mexLog Call_iauTaiutc) (\<lambda>_.
        case iauTaiutc env TAI1 TAI2 of (retVal, UTC1, UTC2) \<Rightarrow>
        mexBind (if retVal = 1 then mexWarnMsgTxt ''Dubious Date entered.''
                 else if retVal = - 1 then mexErrMsgTxt ''Unacceptable date entered''
                 else mexReturn ()) (\<lambda>_.
        fetchEOP env UTC1 UTC2))))
      else mexReturn \<lparr>xp = 0, yp = 0, dX = 0, dY = 0, deltaT = 0, LOD = 0\<rparr>)"

text \<open>The shape test of lines 216 and 234: a 2 by 1 or a 1 by 2 array.\<close>

definition isPair :: "mxArray \<Rightarrow> bool" where
  "isPair a = ((mxGetM a = 2 \<and> mxGetN a = 1) \<or> (mxGetM a = 1 \<and> mxGetN a = 2))"

text \<open>
  Lines 201 to 248: the values given by the caller replace those of the lookup, one
  argument at a time. Each of the four blocks is a definition of its own.
\<close>

text \<open>Lines 201 to 203.\<close>

definition overrideDeltaT :: "collaborators \<Rightarrow> mxArray list \<Rightarrow> eop \<Rightarrow> eop mex" where
  "overrideDeltaT env prhs e =
     (if length prhs > 3 \<and> \<not> mxIsEmpty (prhs ! 3)
      then mexBind (mexGetDoubleFromMatlab env (prhs ! 3)) (\<lambda>v. mexReturn (e\<lparr>deltaT := v\<rparr>))
      else mexReturn e)"

text \<open>Lines 209 to 225: the fourth optional input, \<open>xpyp\<close>.\<close>

definition overridePolarMotion :: "collaborators \<Rightarrow> mxArray list \<Rightarrow> eop \<Rightarrow> eop mex" where
  "overridePolarMotion env prhs e =
     (if length prhs > 4 \<and> \<not> mxIsEmpty (prhs ! 4)
      then mexBind (mexCheckRealDoubleArray env (prhs ! 4)) (\<lambda>_.
           if isPair (prhs ! 4)
           then mexReturn (e\<lparr>xp := mxGetData (prhs ! 4) ! 0, yp := mxGetData (prhs ! 4) ! 1\<rparr>)
           else mexErrMsgTxt ''The celestial pole offsets have the wrong dimensionality.'')
      else mexReturn e)"

text \<open>Lines 227 to 243: the fifth optional input, \<open>dXdY\<close>.\<close>

definition overridePoleOffsets :: "collaborators \<Rightarrow> mxArray list \<Rightarrow> eop \<Rightarrow> eop mex" where
  "overridePoleOffsets env prhs e =
     (if length prhs > 5 \<and> \<not> mxIsEmpty (prhs ! 5)
      then mexBind (mexCheckRealDoubleArray env (prhs ! 5)) (\<lambda>_.
           if isPair (prhs ! 5)
           then mexReturn (e\<lparr>dX := mxGetData (prhs ! 5) ! 0, dY := mxGetData (prhs ! 5) ! 1\<rparr>)
           else mexErrMsgTxt ''The polar motion coordinates have the wrong dimensionality.'')
      else mexReturn e)"

text \<open>Lines 246 to 248.\<close>

definition overrideLOD :: "collaborators \<Rightarrow> mxArray list \<Rightarrow> eop \<Rightarrow> eop mex" where
  "overrideLOD env prhs e =
     (if length prhs > 6 \<and> \<not> mxIsEmpty (prhs ! 6)
      then mexBind (mexGetDoubleFromMatlab env (prhs ! 6)) (\<lambda>v. mexReturn (e\<lparr>LOD := v\<rparr>))
      else mexReturn e)"

text \<open>
  Lines 201 to 248 in the order of the source: UT1 is computed at line 206, after
  \<open>deltaT\<close> is settled and before the shapes of \<open>xpyp\<close> and \<open>dXdY\<close> are looked at.
\<close>

definition applyOverrides ::
  "collaborators \<Rightarrow> mxArray list \<Rightarrow> real \<Rightarrow> real \<Rightarrow> eop \<Rightarrow> (eop \<times> real \<times> real) mex" where
  "applyOverrides env prhs TT1 TT2 e0 =
     mexBind (overrideDeltaT env prhs e0) (\<lambda>e1.
     mexBind (mexLog Call_iauTtut1) (\<lambda>_.
     case iauTtut1 env TT1 TT2 (deltaT e1) of (UT11, UT12) \<Rightarrow>
     mexBind (overridePolarMotion env prhs e1) (\<lambda>e2.
     mexBind (overridePoleOffsets env prhs e2) (\<lambda>e3.
     mexBind (overrideLOD env prhs e3) (\<lambda>e4.
     mexReturn (e4, UT11, UT12))))))"

subsection \<open>The rotation matrices and the angular velocity\<close>

text \<open>The four arrays computed once per call and read by the loop over the vectors.\<close>

record rotation =
  GCRS2ITRS :: mat3
  GCRS2TIRS :: mat3
  rpom :: mat3
  Omega :: vec3

definition rident :: mat3 where
  "rident = ((1, 0, 0), (0, 1, 0), (0, 0, 1))"

text \<open>Lines 253 to 303.\<close>

definition composeRotation ::
  "collaborators \<Rightarrow> real \<Rightarrow> real \<Rightarrow> real \<Rightarrow> real \<Rightarrow> eop \<Rightarrow> rotation mex" where
  "composeRotation env TT1 TT2 UT11 UT12 e =
     mexBind (mexLog Call_iauXys06a) (\<lambda>_.
     case iauXys06a env TT1 TT2 of (x0, y0, s) \<Rightarrow>
     let x = x0 + dX e; y = y0 + dY e in
     mexBind (mexLog Call_iauC2ixys) (\<lambda>_.
     let rc2i = iauC2ixys env x y s in
     mexBind (mexLog Call_iauEra00) (\<lambda>_.
     let era = iauEra00 env UT11 UT12 in
     mexBind (mexLog Call_iauSp00) (\<lambda>_.
     let sp = iauSp00 env TT1 TT2 in
     mexBind (mexLog Call_iauPom00) (\<lambda>_.
     let pom = iauPom00 env (xp e) (yp e) sp in
     mexBind (mexLog Call_iauC2tcio) (\<lambda>_.
     let g2i = iauC2tcio env rc2i era pom in
     mexBind (mexLog Call_iauC2tcio) (\<lambda>_.
     let g2t = iauC2tcio env rc2i era rident in
     mexBind (mexLog Call_getScalarMatlabClassConst) (\<lambda>_.
     let omega0 = IERSMeanEarthRotationRate env;
         omega = omega0 * (1 - LOD e / 86400)
     in mexReturn \<lparr>GCRS2ITRS = g2i, GCRS2TIRS = g2t, rpom = pom,
                    Omega = (0, 0, omega)\<rparr>))))))))"

subsection \<open>The loop over the vectors\<close>

text \<open>
  The body of the loop of lines 311 to 343, for the column \<open>curVec\<close>: \<open>xVec\<close> is read,
  \<open>retData\<close> is written. The last step reads and writes the same three cells; the
  product is taken as computed from the cells read before any of them is written.
\<close>

definition loopBody :: "rotation \<Rightarrow> nat \<Rightarrow> real list \<Rightarrow> real list \<Rightarrow> nat \<Rightarrow> real list" where
  "loopBody R numRow xVec retData curVec =
     (let retData1 = store3 retData (numRow * curVec)
                       (iauRxp (GCRS2ITRS R) (load3 xVec (numRow * curVec)))
      in if numRow > 3 then
           let velTIRS = iauRxp (GCRS2TIRS R) (load3 xVec (numRow * curVec + 3));
               posTIRS = iauRxp (GCRS2TIRS R) (load3 xVec (numRow * curVec));
               rotVel = iauPxp (Omega R) posTIRS;
               retData2 = store3 retData1 (numRow * curVec + 3) (iauPmp velTIRS rotVel)
           in store3 retData2 (numRow * curVec + 3)
                (iauRxp (rpom R) (load3 retData2 (numRow * curVec + 3)))
         else retData1)"

text \<open>
  Lines 306 to 344: the output array is created filled with zeros, then the loop runs
  over the columns \<open>0, ..., numVec - 1\<close> in this order.
\<close>

definition transformBatch :: "rotation \<Rightarrow> nat \<Rightarrow> nat \<Rightarrow> real list \<Rightarrow> real list" where
  "transformBatch R numRow numVec xVec =
     foldl (loopBody R numRow xVec) (replicate (numRow * numVec) 0) [0..<numVec]"

subsection \<open>The gateway\<close>

text \<open>The two outputs: \<open>plhs[0]\<close>, and \<open>plhs[1]\<close> when it is asked for.\<close>

record mexOutput =
  vec :: mxArray
  rotMat :: "mxArray option"

definition realDoubleMatrix :: "nat \<Rightarrow> nat \<Rightarrow> real list \<Rightarrow> mxArray" where
  "realDoubleMatrix m n d =
     \<lparr>mxGetM = m, mxGetN = n, mxGetClassID = mxDOUBLE_CLASS, mxIsComplex = False,
      mxGetData = d\<rparr>"

text \<open>Lines 352 to 359: \<open>elPtr[i+3*j] = GCRS2ITRS[i][j]\<close>.\<close>

definition rotMatOut :: "mat3 \<Rightarrow> mxArray" where
  "rotMatOut g =
     (case g of ((g00, g01, g02), (g10, g11, g12), (g20, g21, g22)) \<Rightarrow>
        realDoubleMatrix 3 3 [g00, g10, g20, g01, g11, g21, g02, g12, g22])"

text \<open>
  The whole call. \<open>nrhs\<close> is the number of arguments, the length of \<open>prhs\<close>;
  \<open>nlhs\<close> is the number of outputs asked for.
\<close>

definition mexFunction :: "collaborators \<Rightarrow> nat \<Rightarrow> mxArray list \<Rightarrow> mexOutput mex" where
  "mexFunction env nlhs prhs =
     mexBind (if length prhs < 3 \<or> length prhs > 7
              then mexErrMsgTxt ''Wrong number of inputs'' else mexReturn ()) (\<lambda>_.
     mexBind (if nlhs > 2
              then mexErrMsgTxt ''Wrong number of outputs.'' else mexReturn ()) (\<lambda>_.
     mexBind (mexCheckRealDoubleArray env (prhs ! 0)) (\<lambda>_.
     let numRow = mxGetM (prhs ! 0); numVec = mxGetN (prhs ! 0) in
     mexBind (if \<not> (numRow = 3 \<or> numRow = 6)
              then mexErrMsgTxt ''The input vector has a bad dimensionality.''
              else mexReturn ()) (\<lambda>_.
     let xVec = mxGetData (prhs ! 0) in
     mexBind (mexGetDoubleFromMatlab env (prhs ! 1)) (\<lambda>TT1.
     mexBind (mexGetDoubleFromMatlab env (prhs ! 2)) (\<lambda>TT2.
     mexBind (lookupEOP env prhs TT1 TT2) (\<lambda>e0.
     mexBind (applyOverrides env prhs TT1 TT2 e0) (\<lambda>(e, UT11, UT12).
     mexBind (composeRotation env TT1 TT2 UT11 UT12 e) (\<lambda>R.
     mexReturn \<lparr>vec = realDoubleMatrix numRow numVec (transformBatch R numRow numVec xVec),
                rotMat = (if nlhs > 1 then Some (rotMatOut (GCRS2ITRS R)) else None)\<rparr>
     )))))))))"

subsection \<open>Notions used to state the properties\<close>



text \<open>
  The value \<open>composeRotation\<close> returns, without its trace (see \<open>composeRotation_eq\<close>).
\<close>

definition composedRotation ::
  "collaborators \<Rightarrow> real \<Rightarrow> real \<Rightarrow> real \<Rightarrow> real \<Rightarrow> eop \<Rightarrow> rotation" where
  "composedRotation env TT1 TT2 UT11 UT12 e =
     (case iauXys06a env TT1 TT2 of (x0, y0, s) \<Rightarrow>
      let rc2i = iauC2ixys env (x0 + dX e) (y0 + dY e) s;
          era = iauEra00 env UT11 UT12;
          pom = iauPom00 env (xp e) (yp e) (iauSp00 env TT1 TT2)
      in \<lparr>GCRS2ITRS = iauC2tcio env rc2i era pom,
          GCRS2TIRS = iauC2tcio env rc2i era rident,
          rpom = pom,
          Omega = (0, 0, IERSMeanEarthRotationRate env * (1 - LOD e / 86400))\<rparr>)"

definition composeTrace :: "event list" where
  "composeTrace =
     [Call_iauXys06a, Call_iauC2ixys, Call_iauEra00, Call_iauSp00, Call_iauPom00,
      Call_iauC2tcio, Call_iauC2tcio, Call_getScalarMatlabClassConst]"

text \<open>
  The call passes the checks of lines 115 to 130 and reads the epoch \<open>(TT1, TT2)\<close> at
  lines 133 and 134.
\<close>

definition entryOK :: "collaborators \<Rightarrow> nat \<Rightarrow> mxArray list \<Rightarrow> real \<Rightarrow> real \<Rightarrow> bool" where
  "entryOK env nlhs prhs TT1 TT2 =
     (3 \<le> length prhs \<and> length prhs \<le> 7 \<and> nlhs \<le> 2
      \<and> checkRealDoubleArray env (prhs ! 0)
      \<and> (mxGetM (prhs ! 0) = 3 \<or> mxGetM (prhs ! 0) = 6)
      \<and> getDoubleFromMatlab env (prhs ! 1) = Some TT1
      \<and> getDoubleFromMatlab env (prhs ! 2) = Some TT2)"

text \<open>The events of the lookup of lines 137 to 198.\<close>

definition lookupEvents :: "event set" where
  "lookupEvents =
     {Call_iauTttai, Call_iauTaiutc, WarnMsgTxt ''Dubious Date entered.'', Call_getEOP}"

text \<open>
  The test of lines 201, 209, 227 and 246: the argument \<open>i\<close> is present and not empty.
\<close>

definition isGiven :: "mxArray list \<Rightarrow> nat \<Rightarrow> bool" where
  "isGiven prhs i = (length prhs > i \<and> \<not> mxIsEmpty (prhs ! i))"

text \<open>
  The merge as the spec words it, to be compared with \<open>applyOverrides\<close>: each of the four
  groups is the caller's where the caller gives it and the lookup's elsewhere. \<open>dT\<close> and
  \<open>lod\<close> are the scalars read from the arguments 3 and 6 when these are given.
\<close>

definition mergeEOP :: "mxArray list \<Rightarrow> real \<Rightarrow> real \<Rightarrow> eop \<Rightarrow> eop" where
  "mergeEOP prhs dT lod e =
     \<lparr>xp = (if isGiven prhs 4 then mxGetData (prhs ! 4) ! 0 else xp e),
      yp = (if isGiven prhs 4 then mxGetData (prhs ! 4) ! 1 else yp e),
      dX = (if isGiven prhs 5 then mxGetData (prhs ! 5) ! 0 else dX e),
      dY = (if isGiven prhs 5 then mxGetData (prhs ! 5) ! 1 else dY e),
      deltaT = (if isGiven prhs 3 then dT else deltaT e),
      LOD = (if isGiven prhs 6 then lod else LOD e)\<rparr>"

text \<open>Two two-part dates that stand for the same epoch.\<close>

definition sameEpoch :: "real \<times> real \<Rightarrow> real \<times> real \<Rightarrow> bool" where
  "sameEpoch p q = (fst p + snd p = fst q + snd q)"

text \<open>
  Modelled from the spec: how the collaborators that take a two-part date (the SOFA
  routines \<open>iauTttai\<close>, \<open>iauTaiutc\<close>, \<open>iauTtut1\<close>, \<open>iauXys06a\<close>, \<open>iauEra00\<close>, \<open>iauSp00\<close> and
  the MATLAB function \<open>getEOP\<close>, none of them in the source file) treat it. The spec has
  the true epoch be the sum of the two parts and the split exist for precision only: a
  collaborator answers two splits of one epoch alike, with the same status and value,
  and where it returns a two-part date, with a date that stands for the same epoch.
\<close>

definition respectsEpoch :: "collaborators \<Rightarrow> bool" where
  "respectsEpoch env =
     (\<forall>a b a' b'. a + b = a' + b' \<longrightarrow>
        fst (iauTttai env a b) = fst (iauTttai env a' b')
        \<and> sameEpoch (snd (iauTttai env a b)) (snd (iauTttai env a' b'))
        \<and> fst (iauTaiutc env a b) = fst (iauTaiutc env a' b')
        \<and> sameEpoch (snd (iauTaiutc env a b)) (snd (iauTaiutc env a' b'))
        \<and> getEOP env a b = getEOP env a' b'
        \<and> (\<forall>d. sameEpoch (iauTtut1 env a b d) (iauTtut1 env a' b' d))
        \<and> iauXys06a env a b = iauXys06a env a' b'
        \<and> iauEra00 env a b = iauEra00 env a' b'
        \<and> iauSp00 env a b = iauSp00 env a' b')"

text \<open>What only the lookup can do: its three calls, a warning, its two date errors.\<close>

definition dateEvents :: "event set" where
  "dateEvents = {Call_iauTttai, Call_iauTaiutc, Call_getEOP} \<union> range WarnMsgTxt"

definition dateErrors :: "mexError set" where
  "dateErrors =
     {ErrMsgTxt ''An error occurred computing TAI.'', ErrMsgTxt ''Unacceptable date entered''}"

text \<open>A computation that produces no event of \<open>A\<close> and ends with no error of \<open>E\<close>.\<close>

definition avoids :: "event set \<Rightarrow> mexError set \<Rightarrow> 'a mex \<Rightarrow> bool" where
  "avoids A E m = (set (fst m) \<inter> A = {} \<and> snd m \<notin> Inl ` E)"

text \<open>A computation that ends with an error and has produced no event of \<open>A\<close>.\<close>

definition stopsBefore :: "event set \<Rightarrow> 'a mex \<Rightarrow> bool" where
  "stopsBefore A m = (isl (snd m) \<and> set (fst m) \<inter> A = {})"

text \<open>The events of the model evaluation of lines 253 to 303.\<close>

definition modelEvents :: "event set" where
  "modelEvents = set composeTrace"

subsection \<open>Concrete collaborators and arguments for the examples\<close>

text \<open>
  Small stand-ins for the collaborators, used only where a theorem is applied to a
  concrete call: the conversions keep the date, the status of \<open>iauTaiutc\<close> is the
  parameter \<open>st\<close>, \<open>getEOP\<close> returns fixed values, the matrices are simple functions of
  their arguments.
\<close>

definition scalarDouble :: "real \<Rightarrow> mxArray" where
  "scalarDouble v = realDoubleMatrix 1 1 [v]"

definition stubCollaborators :: "int \<Rightarrow> collaborators" where
  "stubCollaborators st =
     \<lparr>checkRealDoubleArray = (\<lambda>a. mxGetClassID a = mxDOUBLE_CLASS \<and> \<not> mxIsComplex a),
      getDoubleFromMatlab = (\<lambda>a. case mxGetData a of [v] \<Rightarrow> Some v | _ \<Rightarrow> None),
      iauTttai = (\<lambda>a b. (0, a, b)),
      iauTaiutc = (\<lambda>a b. (st, a, b)),
      getEOP = (\<lambda>a b. Some (realDoubleMatrix 2 1 [1, 2], realDoubleMatrix 2 1 [3, 4],
                             scalarDouble 0, scalarDouble 5, scalarDouble 8640)),
      iauTtut1 = (\<lambda>a b d. (a, b - d / 86400)),
      iauXys06a = (\<lambda>a b. (0, 0, 0)),
      iauC2ixys = (\<lambda>x y s. ((1, 0, - x), (0, 1, - y), (x, y, 1))),
      iauEra00 = (\<lambda>a b. 0),
      iauSp00 = (\<lambda>a b. 0),
      iauPom00 = (\<lambda>x y s. ((1, 0, x), (0, 1, - y), (- x, y, 1))),
      iauC2tcio = (\<lambda>rc2i era pom.
         case rc2i of (a, b, c) \<Rightarrow> (iauRxp pom a, iauRxp pom b, iauRxp pom c)),
      IERSMeanEarthRotationRate = 10\<rparr>"

text \<open>
  Stand-ins whose models depend on the epoch, through the sum of the two parts of the
  date.
\<close>

definition epochCollaborators :: collaborators where
  "epochCollaborators =
     (stubCollaborators 0)
       \<lparr>iauXys06a := (\<lambda>a b. ((a + b) / 2454195, 0, 0)),
        iauEra00 := (\<lambda>a b. a + b - 2454195),
        iauSp00 := (\<lambda>a b. (a + b) / 2454195)\<rparr>"

definition emptyDouble :: mxArray where
  "emptyDouble = realDoubleMatrix 0 0 []"


definition demoBatch6 :: mxArray where
  "demoBatch6 = realDoubleMatrix 6 2 [1, 2, 3, 4, 5, 6, 7, 8, 9, 10, 11, 12]"

definition demoBatch3 :: mxArray where
  "demoBatch3 = realDoubleMatrix 3 2 [1, 2, 3, 1, 2, 3]"

definition demoArgs7pos :: "mxArray list" where
  "demoArgs7pos =
     [demoBatch3, scalarDouble 2400000, scalarDouble 54195, scalarDouble 5,
      realDoubleMatrix 2 1 [1, 2], realDoubleMatrix 1 2 [3, 4], scalarDouble 8640]"

text \<open>The first three arguments only.\<close>

definition demoArgs3 :: "mxArray list" where
  "demoArgs3 = [demoBatch6, scalarDouble 2400000, scalarDouble 54195]"

text \<open>A batch of four rows.\<close>

definition demoArgsBadRows :: "mxArray list" where
  "demoArgsBadRows =
     [realDoubleMatrix 4 1 [1, 2, 3, 4], scalarDouble 2400000, scalarDouble 54195]"

text \<open>A polar motion argument of three elements, among seven and among five arguments.\<close>

definition demoArgsBadXpyp :: "mxArray list" where
  "demoArgsBadXpyp =
     [demoBatch6, scalarDouble 2400000, scalarDouble 54195, scalarDouble 5,
      realDoubleMatrix 3 1 [1, 2, 3], realDoubleMatrix 1 2 [3, 4], scalarDouble 8640]"

definition demoArgs5BadXpyp :: "mxArray list" where
  "demoArgs5BadXpyp =
     [demoBatch6, scalarDouble 2400000, scalarDouble 54195, scalarDouble 5,
      realDoubleMatrix 3 1 [1, 2, 3]]"

text \<open>Celestial pole offsets of three elements.\<close>

definition demoArgsBadDXdY :: "mxArray list" where
  "demoArgsBadDXdY =
     [demoBatch6, scalarDouble 2400000, scalarDouble 54195, scalarDouble 5,
      realDoubleMatrix 2 1 [1, 2], realDoubleMatrix 3 1 [3, 4, 5], scalarDouble 8640]"

text \<open>
  Seven arguments: \<open>deltaT\<close> and the celestial pole offsets are given, the polar motion and
  the length of day are empty.
\<close>

definition demoArgsMixed :: "mxArray list" where
  "demoArgsMixed =
     [demoBatch6, scalarDouble 2400000, scalarDouble 54195, scalarDouble 7,
      emptyDouble, realDoubleMatrix 2 1 [30, 40], emptyDouble]"

text \<open>Seven arguments, none of them empty.\<close>

definition demoArgs7 :: "mxArray list" where
  "demoArgs7 =
     [demoBatch6, scalarDouble 2400000, scalarDouble 54195, scalarDouble 5,
      realDoubleMatrix 2 1 [1, 2], realDoubleMatrix 1 2 [3, 4], scalarDouble 8640]"

section \<open>Basic facts\<close>

subsection \<open>Sequencing, reading and writing\<close>

lemma mexBind_pair [simp]:
  "mexBind (es, Inr a) f = (es @ fst (f a), snd (f a))"
  "mexBind (es, Inl e) f = (es, Inl e)"
  by (simp_all add: mexBind_def)

lemma mexBind_mexReturn [simp]: "mexBind (mexReturn x) f = f x"
  by (simp add: mexBind_def mexReturn_def)

lemma mexBind_mexAbort [simp]: "mexBind (mexAbort e) f = mexAbort e"
  by (simp add: mexBind_def mexAbort_def)

lemma mexBind_mexErrMsgTxt [simp]: "mexBind (mexErrMsgTxt m) f = mexErrMsgTxt m"
  by (simp add: mexErrMsgTxt_def)

lemma mexBind_mexLog: "mexBind (mexLog ev) f = (ev # fst (f ()), snd (f ()))"
  by (simp add: mexBind_def mexLog_def)

lemma fst_mexBind:
  "fst (mexBind m f) = fst m @ (case snd m of Inl e \<Rightarrow> [] | Inr a \<Rightarrow> fst (f a))"
  by (simp add: mexBind_def split: sum.splits)

lemma length_store3 [simp]: "length (store3 xs off v) = length xs"
  by (cases v) (simp add: store3_def)




lemma length_loopBody [simp]: "length (loopBody R numRow xVec retData curVec) = length retData"
  by (simp add: loopBody_def Let_def)






subsection \<open>The loop, column by column\<close>









subsection \<open>The stages of a call\<close>

lemma mexBind_assoc: "mexBind (mexBind m f) g = mexBind m (\<lambda>x. mexBind (f x) g)"
  by (cases m, cases "snd m") (auto simp add: mexBind_def split: sum.splits)

lemma composeRotation_eq:
  "composeRotation env TT1 TT2 UT11 UT12 e
   = (composeTrace, Inr (composedRotation env TT1 TT2 UT11 UT12 e))"
  by (simp add: composeRotation_def composedRotation_def composeTrace_def Let_def
        mexBind_mexLog mexReturn_def split: prod.splits)

lemma mexFunction_entry:
  assumes "entryOK env nlhs prhs TT1 TT2"
  shows "mexFunction env nlhs prhs =
     mexBind (lookupEOP env prhs TT1 TT2) (\<lambda>e0.
     mexBind (applyOverrides env prhs TT1 TT2 e0) (\<lambda>(e, UT11, UT12).
     mexBind (composeRotation env TT1 TT2 UT11 UT12 e) (\<lambda>R.
     mexReturn \<lparr>vec = realDoubleMatrix (mxGetM (prhs ! 0)) (mxGetN (prhs ! 0))
                        (transformBatch R (mxGetM (prhs ! 0)) (mxGetN (prhs ! 0))
                           (mxGetData (prhs ! 0))),
                rotMat = (if nlhs > 1 then Some (rotMatOut (GCRS2ITRS R)) else None)\<rparr>)))"
  using assms
  by (auto simp add: entryOK_def mexFunction_def mexCheckRealDoubleArray_def
        mexGetDoubleFromMatlab_def Let_def)

lemma lookupEOP_skip: "\<not> needsEOP prhs \<Longrightarrow>
  lookupEOP env prhs TT1 TT2 = mexReturn \<lparr>xp = 0, yp = 0, dX = 0, dY = 0, deltaT = 0, LOD = 0\<rparr>"
  by (simp add: lookupEOP_def)

lemma fst_lookupEOP: "set (fst (lookupEOP env prhs TT1 TT2)) \<subseteq> lookupEvents"
  by (auto simp add: lookupEOP_def fetchEOP_def lookupEvents_def mexBind_def mexLog_def mexReturn_def
       mexAbort_def mexErrMsgTxt_def mexWarnMsgTxt_def mexCheckRealDoubleArray_def
       mexGetDoubleFromMatlab_def
       split: prod.splits option.splits sum.splits if_splits)

section \<open>The vector transformer and the angular velocity\<close>

lemma mexBind_Inr:
  assumes "mexBind m f = (ev, Inr y)"
  shows "\<exists>ev1 x ev2. m = (ev1, Inr x) \<and> f x = (ev2, Inr y) \<and> ev = ev1 @ ev2"
  using assms by (cases m) (auto simp add: mexBind_def prod_eq_iff split: sum.splits)

text \<open>
  A call that returns has passed the entry checks, its lookup and its overrides have
  succeeded, and its outputs are the batch transformed with the rotation composed from
  the resulting parameters, and that rotation's \<open>GCRS2ITRS\<close>.
\<close>

lemma mexFunction_success_entry:
  assumes "snd (mexFunction env nlhs prhs) = Inr out"
  shows "\<exists>TT1 TT2. entryOK env nlhs prhs TT1 TT2"
proof -
  have a: "3 \<le> length prhs \<and> length prhs \<le> 7"
    using assms by (auto simp add: mexFunction_def mexErrMsgTxt_def mexAbort_def split: if_splits)
  have b: "nlhs \<le> 2"
    using assms a by (auto simp add: mexFunction_def mexErrMsgTxt_def mexAbort_def split: if_splits)
  have c: "checkRealDoubleArray env (prhs ! 0)"
    using assms a b
    by (auto simp add: mexFunction_def mexCheckRealDoubleArray_def mexAbort_def split: if_splits)
  have d: "mxGetM (prhs ! 0) = 3 \<or> mxGetM (prhs ! 0) = 6"
    using assms a b c
    by (auto simp add: mexFunction_def mexCheckRealDoubleArray_def mexErrMsgTxt_def
          mexAbort_def Let_def split: if_splits)
  have e: "\<exists>TT1. getDoubleFromMatlab env (prhs ! 1) = Some TT1"
    using assms a b c d
    by (cases "getDoubleFromMatlab env (prhs ! 1)")
       (auto simp add: mexFunction_def mexCheckRealDoubleArray_def mexGetDoubleFromMatlab_def
          mexAbort_def Let_def split: if_splits)
  then obtain TT1 where e': "getDoubleFromMatlab env (prhs ! 1) = Some TT1" by blast
  have f: "\<exists>TT2. getDoubleFromMatlab env (prhs ! 2) = Some TT2"
    using assms a b c d e'
    by (cases "getDoubleFromMatlab env (prhs ! 2)")
       (auto simp add: mexFunction_def mexCheckRealDoubleArray_def mexGetDoubleFromMatlab_def
          mexAbort_def Let_def split: if_splits)
  show ?thesis using a b c d e' f by (auto simp add: entryOK_def)
qed

lemma mexFunction_success:
  assumes "mexFunction env nlhs prhs = (ev, Inr out)"
  shows "\<exists>TT1 TT2 ev1 e0 ev2 e UT11 UT12.
           entryOK env nlhs prhs TT1 TT2
           \<and> lookupEOP env prhs TT1 TT2 = (ev1, Inr e0)
           \<and> applyOverrides env prhs TT1 TT2 e0 = (ev2, Inr (e, UT11, UT12))
           \<and> ev = ev1 @ ev2 @ composeTrace
           \<and> vec out = realDoubleMatrix (mxGetM (prhs ! 0)) (mxGetN (prhs ! 0))
                 (transformBatch (composedRotation env TT1 TT2 UT11 UT12 e)
                    (mxGetM (prhs ! 0)) (mxGetN (prhs ! 0)) (mxGetData (prhs ! 0)))
           \<and> rotMat out = (if nlhs > 1
                 then Some (rotMatOut (GCRS2ITRS (composedRotation env TT1 TT2 UT11 UT12 e)))
                 else None)"
proof -
  from assms have "snd (mexFunction env nlhs prhs) = Inr out" by simp
  then obtain TT1 TT2 where ok: "entryOK env nlhs prhs TT1 TT2"
    using mexFunction_success_entry by blast
  note eq = assms [unfolded mexFunction_entry [OF ok]]
  from mexBind_Inr [OF eq] obtain ev1 e0 evr where
    l: "lookupEOP env prhs TT1 TT2 = (ev1, Inr e0)" and
    r: "mexBind (applyOverrides env prhs TT1 TT2 e0) (\<lambda>(e, UT11, UT12).
          mexBind (composeRotation env TT1 TT2 UT11 UT12 e) (\<lambda>R.
          mexReturn \<lparr>vec = realDoubleMatrix (mxGetM (prhs ! 0)) (mxGetN (prhs ! 0))
                        (transformBatch R (mxGetM (prhs ! 0)) (mxGetN (prhs ! 0))
                           (mxGetData (prhs ! 0))),
                rotMat = (if nlhs > 1 then Some (rotMatOut (GCRS2ITRS R)) else None)\<rparr>))
         = (evr, Inr out)" and
    e1: "ev = ev1 @ evr" by blast
  from mexBind_Inr [OF r] obtain ev2 x evc where
    o: "applyOverrides env prhs TT1 TT2 e0 = (ev2, Inr x)" and
    c: "(case x of (e, UT11, UT12) \<Rightarrow>
          mexBind (composeRotation env TT1 TT2 UT11 UT12 e) (\<lambda>R.
          mexReturn \<lparr>vec = realDoubleMatrix (mxGetM (prhs ! 0)) (mxGetN (prhs ! 0))
                        (transformBatch R (mxGetM (prhs ! 0)) (mxGetN (prhs ! 0))
                           (mxGetData (prhs ! 0))),
                rotMat = (if nlhs > 1 then Some (rotMatOut (GCRS2ITRS R)) else None)\<rparr>))
         = (evc, Inr out)" and
    e2: "evr = ev2 @ evc" by blast
  obtain e UT11 UT12 where x: "x = (e, UT11, UT12)" by (cases x) auto
  from c have "evc = composeTrace" and
    "out = \<lparr>vec = realDoubleMatrix (mxGetM (prhs ! 0)) (mxGetN (prhs ! 0))
                        (transformBatch (composedRotation env TT1 TT2 UT11 UT12 e)
                           (mxGetM (prhs ! 0)) (mxGetN (prhs ! 0))
                           (mxGetData (prhs ! 0))),
                rotMat = (if nlhs > 1
                  then Some (rotMatOut (GCRS2ITRS (composedRotation env TT1 TT2 UT11 UT12 e)))
                  else None)\<rparr>"
    by (simp_all add: x composeRotation_eq mexReturn_def)
  then show ?thesis
    using ok l o x e1 e2
    by (intro exI [of _ TT1] exI [of _ TT2] exI [of _ ev1] exI [of _ e0] exI [of _ ev2]
          exI [of _ e] exI [of _ UT11] exI [of _ UT12]) simp
qed



text \<open>
  Claim C5. The model evaluation always succeeds, and the angular velocity it returns is
  \<open>(0, 0, omega)\<close> with \<open>omega\<close> the mean rotation rate of the Earth times
  \<open>1 - LOD / 86400\<close>; with \<open>LOD = 0\<close>, \<open>omega\<close> is the mean rotation rate itself.
\<close>

theorem omega_form:
  "(\<exists>ev R. composeRotation env TT1 TT2 UT11 UT12 e = (ev, Inr R)
            \<and> Omega R = (0, 0, IERSMeanEarthRotationRate env * (1 - LOD e / 86400)))
   \<and> (\<exists>ev R. composeRotation env TT1 TT2 UT11 UT12 (e\<lparr>LOD := 0\<rparr>) = (ev, Inr R)
            \<and> Omega R = (0, 0, IERSMeanEarthRotationRate env))"
  by (simp add: composeRotation_eq composedRotation_def Let_def split: prod.splits)








section \<open>The length of day and position-only batches\<close>

lemma fst_overrides [simp]:
  "fst (overrideDeltaT env prhs e) = []"
  "fst (overridePolarMotion env prhs e) = []"
  "fst (overridePoleOffsets env prhs e) = []"
  "fst (overrideLOD env prhs e) = []"
  by (auto simp add: overrideDeltaT_def overridePolarMotion_def overridePoleOffsets_def
        overrideLOD_def mexBind_def mexReturn_def mexAbort_def mexErrMsgTxt_def
        mexCheckRealDoubleArray_def mexGetDoubleFromMatlab_def
        split: option.splits sum.splits)

lemma fst_applyOverrides:
  "set (fst (applyOverrides env prhs TT1 TT2 e0)) \<subseteq> {Call_iauTtut1}"
  by (auto simp add: applyOverrides_def fst_mexBind mexLog_def mexReturn_def
        split: sum.splits prod.splits)

lemma overrideDeltaT_given:
  assumes "length prhs > 3" and "\<not> mxIsEmpty (prhs ! 3)"
    and "getDoubleFromMatlab env (prhs ! 3) = Some v"
  shows "overrideDeltaT env prhs e = mexReturn (e\<lparr>deltaT := v\<rparr>)"
  using assms by (simp add: overrideDeltaT_def mexGetDoubleFromMatlab_def)

lemma overridePolarMotion_given:
  assumes "length prhs > 4" and "\<not> mxIsEmpty (prhs ! 4)"
    and "checkRealDoubleArray env (prhs ! 4)" and "isPair (prhs ! 4)"
  shows "overridePolarMotion env prhs e
         = mexReturn (e\<lparr>xp := mxGetData (prhs ! 4) ! 0, yp := mxGetData (prhs ! 4) ! 1\<rparr>)"
  using assms by (simp add: overridePolarMotion_def mexCheckRealDoubleArray_def)

lemma overridePoleOffsets_given:
  assumes "length prhs > 5" and "\<not> mxIsEmpty (prhs ! 5)"
    and "checkRealDoubleArray env (prhs ! 5)" and "isPair (prhs ! 5)"
  shows "overridePoleOffsets env prhs e
         = mexReturn (e\<lparr>dX := mxGetData (prhs ! 5) ! 0, dY := mxGetData (prhs ! 5) ! 1\<rparr>)"
  using assms by (simp add: overridePoleOffsets_def mexCheckRealDoubleArray_def)

lemma overrideLOD_given:
  assumes "length prhs > 6" and "\<not> mxIsEmpty (prhs ! 6)"
    and "getDoubleFromMatlab env (prhs ! 6) = Some v"
  shows "overrideLOD env prhs e = mexReturn (e\<lparr>LOD := v\<rparr>)"
  using assms by (simp add: overrideLOD_def mexGetDoubleFromMatlab_def)

lemma overridePolarMotion_bad:
  assumes "length prhs > 4" and "\<not> mxIsEmpty (prhs ! 4)"
    and "checkRealDoubleArray env (prhs ! 4)" and "\<not> isPair (prhs ! 4)"
  shows "overridePolarMotion env prhs e
         = mexErrMsgTxt ''The celestial pole offsets have the wrong dimensionality.''"
  using assms by (simp add: overridePolarMotion_def mexCheckRealDoubleArray_def)

lemma overridePoleOffsets_bad:
  assumes "length prhs > 5" and "\<not> mxIsEmpty (prhs ! 5)"
    and "checkRealDoubleArray env (prhs ! 5)" and "\<not> isPair (prhs ! 5)"
  shows "overridePoleOffsets env prhs e
         = mexErrMsgTxt ''The polar motion coordinates have the wrong dimensionality.''"
  using assms by (simp add: overridePoleOffsets_def mexCheckRealDoubleArray_def)

lemma overridePolarMotion_fails:
  assumes "length prhs > 4" and "\<not> mxIsEmpty (prhs ! 4)" and "\<not> isPair (prhs ! 4)"
  shows "isl (snd (overridePolarMotion env prhs e))"
  using assms
  by (simp add: overridePolarMotion_def mexCheckRealDoubleArray_def mexErrMsgTxt_def
        mexAbort_def)

lemma loopBody3_cong:
  assumes "GCRS2ITRS R = GCRS2ITRS R'"
  shows "loopBody R 3 = loopBody R' 3"
  using assms by (intro ext) (simp add: loopBody_def)

lemma transformBatch3_cong:
  assumes "GCRS2ITRS R = GCRS2ITRS R'"
  shows "transformBatch R 3 n x = transformBatch R' 3 n x"
  by (simp add: transformBatch_def loopBody3_cong [OF assms])

lemma composedRotation_LOD [simp]:
  "GCRS2ITRS (composedRotation env TT1 TT2 UT11 UT12 (e\<lparr>LOD := l\<rparr>))
   = GCRS2ITRS (composedRotation env TT1 TT2 UT11 UT12 e)"
  by (simp add: composedRotation_def Let_def split: prod.splits)

lemma transformBatch3_LOD:
  "transformBatch (composedRotation env TT1 TT2 UT11 UT12 (e\<lparr>LOD := l\<rparr>)) 3 n x
   = transformBatch (composedRotation env TT1 TT2 UT11 UT12 e) 3 n x"
  by (rule transformBatch3_cong) simp

lemma needsEOP_update6:
  assumes "length prhs = 7" and "mxIsEmpty a = mxIsEmpty (prhs ! 6)"
  shows "needsEOP (prhs[6 := a]) = needsEOP prhs"
  using assms by (simp add: needsEOP_def)

lemma overrides_update6:
  "overrideDeltaT env (prhs[6 := a]) = overrideDeltaT env prhs"
  "overridePolarMotion env (prhs[6 := a]) = overridePolarMotion env prhs"
  "overridePoleOffsets env (prhs[6 := a]) = overridePoleOffsets env prhs"
  by (intro ext, simp add: overrideDeltaT_def overridePolarMotion_def overridePoleOffsets_def)+

lemma applyOverrides_update6:
  assumes "length prhs = 7"
    and "\<not> mxIsEmpty (prhs ! 6)" and "getDoubleFromMatlab env (prhs ! 6) = Some l"
    and "\<not> mxIsEmpty a" and "getDoubleFromMatlab env a = Some l'"
  shows "applyOverrides env (prhs[6 := a]) TT1 TT2 e0
         = mexBind (applyOverrides env prhs TT1 TT2 e0)
             (\<lambda>(e, UT11, UT12). mexReturn (e\<lparr>LOD := l'\<rparr>, UT11, UT12))"
proof -
  have l1: "\<And>e. overrideLOD env (prhs[6 := a]) e = mexReturn (e\<lparr>LOD := l'\<rparr>)"
    using assms by (simp add: overrideLOD_given)
  have l2: "\<And>e. overrideLOD env prhs e = mexReturn (e\<lparr>LOD := l\<rparr>)"
    using assms by (simp add: overrideLOD_given)
  show ?thesis
    by (simp add: applyOverrides_def l1 l2 overrides_update6 mexBind_assoc case_prod_beta)
qed

text \<open>
  Claim C7. For a batch of three rows, two calls with seven arguments that differ only
  in the value of the length of day, a scalar in both, have the same result: the same
  vectors, the same rotation matrix, the same trace, or the same error.
\<close>

theorem LOD_irrelevant_for_positions:
  assumes "length prhs = 7" and "mxGetM (prhs ! 0) = 3"
    and "\<not> mxIsEmpty (prhs ! 6)" and "getDoubleFromMatlab env (prhs ! 6) = Some l"
    and "\<not> mxIsEmpty a" and "getDoubleFromMatlab env a = Some l'"
  shows "mexFunction env nlhs (prhs[6 := a]) = mexFunction env nlhs prhs"
proof -
  have n: "needsEOP (prhs[6 := a]) = needsEOP prhs"
    using assms by (simp add: needsEOP_update6)
  have lk: "\<And>TT1 TT2. lookupEOP env (prhs[6 := a]) TT1 TT2 = lookupEOP env prhs TT1 TT2"
    by (simp add: lookupEOP_def n)
  note ao = applyOverrides_update6 [OF assms(1) assms(3-6)]
  show ?thesis
    using assms(1,2)
    by (simp add: mexFunction_def lk ao composeRotation_eq mexBind_assoc transformBatch3_LOD
          mexReturn_def split_def Let_def cong: if_cong)
qed

theorem LOD_irrelevant_for_positions_witness:
  "length demoArgs7pos = 7 \<and> mxGetM (demoArgs7pos ! 0) = 3
   \<and> getDoubleFromMatlab (stubCollaborators 0) (demoArgs7pos ! 6) = Some 8640
   \<and> getDoubleFromMatlab (stubCollaborators 0) (scalarDouble 0) = Some 0
   \<and> mexFunction (stubCollaborators 0) 2 (demoArgs7pos[6 := scalarDouble 0])
       = mexFunction (stubCollaborators 0) 2 demoArgs7pos
   \<and> \<not> isl (snd (mexFunction (stubCollaborators 0) 2 demoArgs7pos))"
proof -
  have h1: "length demoArgs7pos = 7" by code_simp
  have h2: "mxGetM (demoArgs7pos ! 0) = 3" by code_simp
  have h3: "\<not> mxIsEmpty (demoArgs7pos ! 6)" by code_simp
  have h4: "getDoubleFromMatlab (stubCollaborators 0) (demoArgs7pos ! 6) = Some 8640"
    by code_simp
  have h5: "\<not> mxIsEmpty (scalarDouble 0)" by code_simp
  have h6: "getDoubleFromMatlab (stubCollaborators 0) (scalarDouble 0) = Some 0"
    by code_simp
  have r: "\<not> isl (snd (mexFunction (stubCollaborators 0) 2 demoArgs7pos))" by code_simp
  show ?thesis
    using LOD_irrelevant_for_positions [OF h1 h2 h3 h4 h5 h6, where nlhs = 2] h1 h2 h4 h6 r
    by blast
qed

section \<open>Calls that give all four optional arguments\<close>

lemma avoids_mexBind:
  assumes "avoids A E m" and "\<And>x. avoids A E (f x)"
  shows "avoids A E (mexBind m f)"
  using assms by (auto simp add: avoids_def mexBind_def split: sum.splits)

lemma avoids_simps:
  "avoids A E (mexReturn x)"
  "avoids A E (mexAbort e) = (e \<notin> E)"
  "avoids A E (mexErrMsgTxt msg) = (ErrMsgTxt msg \<notin> E)"
  "avoids A E (mexLog ev) = (ev \<notin> A)"
  by (auto simp add: avoids_def mexReturn_def mexAbort_def mexErrMsgTxt_def mexLog_def)

lemma avoids_helpers:
  assumes "MexValidationError \<notin> E"
  shows "avoids A E (mexCheckRealDoubleArray env a)"
    and "avoids A E (mexGetDoubleFromMatlab env a)"
  using assms
  by (auto simp add: mexCheckRealDoubleArray_def mexGetDoubleFromMatlab_def avoids_simps
        split: option.splits)

lemma avoids_overrides:
  assumes "MexValidationError \<notin> E"
    and "ErrMsgTxt ''The celestial pole offsets have the wrong dimensionality.'' \<notin> E"
    and "ErrMsgTxt ''The polar motion coordinates have the wrong dimensionality.'' \<notin> E"
  shows "avoids A E (overrideDeltaT env prhs e)"
    and "avoids A E (overridePolarMotion env prhs e)"
    and "avoids A E (overridePoleOffsets env prhs e)"
    and "avoids A E (overrideLOD env prhs e)"
  using assms
  by (auto simp add: overrideDeltaT_def overridePolarMotion_def overridePoleOffsets_def
        overrideLOD_def avoids_simps avoids_helpers intro!: avoids_mexBind)

lemma avoids_applyOverrides:
  assumes "Call_iauTtut1 \<notin> A" and "MexValidationError \<notin> E"
    and "ErrMsgTxt ''The celestial pole offsets have the wrong dimensionality.'' \<notin> E"
    and "ErrMsgTxt ''The polar motion coordinates have the wrong dimensionality.'' \<notin> E"
  shows "avoids A E (applyOverrides env prhs TT1 TT2 e0)"
  unfolding applyOverrides_def split_def
  using assms
  by (intro avoids_mexBind avoids_overrides) (simp_all add: avoids_simps)

lemma avoids_composeRotation:
  assumes "A \<inter> modelEvents = {}"
  shows "avoids A E (composeRotation env TT1 TT2 UT11 UT12 e)"
  using assms by (auto simp add: composeRotation_eq avoids_def modelEvents_def)

lemma dateEvents_disjoint: "dateEvents \<inter> modelEvents = {}" "Call_iauTtut1 \<notin> dateEvents"
  by (auto simp add: dateEvents_def modelEvents_def composeTrace_def)

lemma avoids_mexFunction_skip:
  assumes "\<not> needsEOP prhs"
  shows "avoids dateEvents dateErrors (mexFunction env nlhs prhs)"
  unfolding mexFunction_def Let_def split_def lookupEOP_skip [OF assms]
  by (intro avoids_mexBind avoids_applyOverrides avoids_composeRotation avoids_helpers)
     (simp_all add: avoids_simps dateErrors_def dateEvents_disjoint)

lemma helpers_lookup_free:
  "mexCheckRealDoubleArray (env\<lparr>iauTttai := f, iauTaiutc := g, getEOP := h\<rparr>)
   = mexCheckRealDoubleArray env"
  "mexGetDoubleFromMatlab (env\<lparr>iauTttai := f, iauTaiutc := g, getEOP := h\<rparr>)
   = mexGetDoubleFromMatlab env"
  by (intro ext, simp add: mexCheckRealDoubleArray_def mexGetDoubleFromMatlab_def)+

lemma overrides_lookup_free:
  "overrideDeltaT (env\<lparr>iauTttai := f, iauTaiutc := g, getEOP := h\<rparr>) = overrideDeltaT env"
  "overridePolarMotion (env\<lparr>iauTttai := f, iauTaiutc := g, getEOP := h\<rparr>)
   = overridePolarMotion env"
  "overridePoleOffsets (env\<lparr>iauTttai := f, iauTaiutc := g, getEOP := h\<rparr>)
   = overridePoleOffsets env"
  "overrideLOD (env\<lparr>iauTttai := f, iauTaiutc := g, getEOP := h\<rparr>) = overrideLOD env"
  by (intro ext,
      simp add: overrideDeltaT_def overridePolarMotion_def overridePoleOffsets_def
        overrideLOD_def helpers_lookup_free)+

lemma applyOverrides_lookup_free:
  "applyOverrides (env\<lparr>iauTttai := f, iauTaiutc := g, getEOP := h\<rparr>) = applyOverrides env"
  by (intro ext) (simp add: applyOverrides_def overrides_lookup_free)

lemma composeRotation_lookup_free:
  "composeRotation (env\<lparr>iauTttai := f, iauTaiutc := g, getEOP := h\<rparr>) = composeRotation env"
  by (intro ext) (simp add: composeRotation_eq composedRotation_def)

lemma mexFunction_lookup_free:
  assumes "\<not> needsEOP prhs"
  shows "mexFunction (env\<lparr>iauTttai := f, iauTaiutc := g, getEOP := h\<rparr>) nlhs prhs
         = mexFunction env nlhs prhs"
  by (simp add: mexFunction_def lookupEOP_skip [OF assms] applyOverrides_lookup_free
        composeRotation_lookup_free helpers_lookup_free)

lemma not_needsEOP:
  assumes "length prhs = 7" and "\<not> mxIsEmpty (prhs ! 3)" and "\<not> mxIsEmpty (prhs ! 4)"
    and "\<not> mxIsEmpty (prhs ! 5)" and "\<not> mxIsEmpty (prhs ! 6)"
  shows "\<not> needsEOP prhs"
  using assms by (simp add: needsEOP_def)

text \<open>
  Claim C9. With seven arguments, the four optional ones not empty, the call makes no
  TT to TAI to UTC conversion and no lookup and prints no warning, it cannot end with one
  of the two date errors, and what the three collaborators of the lookup would answer
  has no influence on it.
\<close>

theorem full_override_skips_date_checks:
  assumes "length prhs = 7" and "\<not> mxIsEmpty (prhs ! 3)" and "\<not> mxIsEmpty (prhs ! 4)"
    and "\<not> mxIsEmpty (prhs ! 5)" and "\<not> mxIsEmpty (prhs ! 6)"
  shows "set (fst (mexFunction env nlhs prhs)) \<inter> dateEvents = {}
         \<and> snd (mexFunction env nlhs prhs) \<notin> Inl ` dateErrors
         \<and> mexFunction (env\<lparr>iauTttai := f, iauTaiutc := g, getEOP := h\<rparr>) nlhs prhs
             = mexFunction env nlhs prhs"
proof -
  have n: "\<not> needsEOP prhs" using assms by (rule not_needsEOP)
  show ?thesis
    using avoids_mexFunction_skip [OF n] mexFunction_lookup_free [OF n]
    by (simp add: avoids_def)
qed

theorem full_override_skips_date_checks_witness:
  "length demoArgs7 = 7 \<and> \<not> needsEOP demoArgs7
   \<and> iauTaiutc (stubCollaborators (- 1)) 2400000 54195 = (- 1, 2400000, 54195)
   \<and> set (fst (mexFunction (stubCollaborators (- 1)) 2 demoArgs7)) \<inter> dateEvents = {}
   \<and> snd (mexFunction (stubCollaborators (- 1)) 2 demoArgs7) \<notin> Inl ` dateErrors
   \<and> mexFunction ((stubCollaborators (- 1))
         \<lparr>iauTttai := \<lambda>a b. (0, a, b), iauTaiutc := \<lambda>a b. (0, a, b),
          getEOP := \<lambda>a b. None\<rparr>) 2 demoArgs7
       = mexFunction (stubCollaborators (- 1)) 2 demoArgs7
   \<and> \<not> isl (snd (mexFunction (stubCollaborators (- 1)) 2 demoArgs7))"
proof -
  have h1: "length demoArgs7 = 7" by code_simp
  have h3: "\<not> mxIsEmpty (demoArgs7 ! 3)" by code_simp
  have h4: "\<not> mxIsEmpty (demoArgs7 ! 4)" by code_simp
  have h5: "\<not> mxIsEmpty (demoArgs7 ! 5)" by code_simp
  have h6: "\<not> mxIsEmpty (demoArgs7 ! 6)" by code_simp
  have n: "\<not> needsEOP demoArgs7" by code_simp
  have u: "iauTaiutc (stubCollaborators (- 1)) 2400000 54195 = (- 1, 2400000, 54195)"
    by code_simp
  have r: "\<not> isl (snd (mexFunction (stubCollaborators (- 1)) 2 demoArgs7))" by code_simp
  show ?thesis
    using full_override_skips_date_checks [OF h1 h3 h4 h5 h6,
        where env = "stubCollaborators (- 1)" and nlhs = 2
        and f = "\<lambda>a b. (0, a, b)" and g = "\<lambda>a b. (0, a, b)" and h = "\<lambda>a b. None"]
      h1 n u r
    by blast
qed

section \<open>Validation of the shapes\<close>

lemma stopsBefore_bindI1:
  assumes "stopsBefore A m"
  shows "stopsBefore A (mexBind m f)"
  using assms by (auto simp add: stopsBefore_def mexBind_def split: sum.splits)

lemma stopsBefore_bindI2:
  assumes "set (fst m) \<inter> A = {}" and "\<And>x. stopsBefore A (f x)"
  shows "stopsBefore A (mexBind m f)"
  using assms by (auto simp add: stopsBefore_def mexBind_def split: sum.splits)

lemma fst_entry_checks [simp]:
  "fst (mexCheckRealDoubleArray env a) = []"
  "fst (mexGetDoubleFromMatlab env a) = []"
  "fst (mexReturn x) = []"
  "fst (mexErrMsgTxt msg :: 'a mex) = []"
  by (simp_all add: mexCheckRealDoubleArray_def mexGetDoubleFromMatlab_def mexReturn_def
        mexErrMsgTxt_def mexAbort_def split: option.splits)

lemma lookupEvents_modelEvents: "lookupEvents \<inter> modelEvents = {}"
  by (auto simp add: lookupEvents_def modelEvents_def composeTrace_def)

lemma fst_lookupEOP_model: "set (fst (lookupEOP env prhs TT1 TT2)) \<inter> modelEvents = {}"
  using fst_lookupEOP [of env prhs TT1 TT2] lookupEvents_modelEvents by blast

lemma stopsBefore_applyOverrides:
  assumes "length prhs > 4" and "\<not> mxIsEmpty (prhs ! 4)" and "\<not> isPair (prhs ! 4)"
  shows "stopsBefore modelEvents (applyOverrides env prhs TT1 TT2 e0)"
  unfolding applyOverrides_def split_def
  apply (rule stopsBefore_bindI2)
   apply simp
  apply (rule stopsBefore_bindI2)
   apply (simp add: mexLog_def modelEvents_def composeTrace_def)
  apply (rule stopsBefore_bindI1)
  apply (simp add: stopsBefore_def overridePolarMotion_fails [OF assms])
  done

lemma stopsBefore_mexFunction:
  assumes "length prhs > 4" and "\<not> mxIsEmpty (prhs ! 4)" and "\<not> isPair (prhs ! 4)"
  shows "stopsBefore modelEvents (mexFunction env nlhs prhs)"
  unfolding mexFunction_def Let_def
  apply (rule stopsBefore_bindI2, simp)
  apply (rule stopsBefore_bindI2, simp)
  apply (rule stopsBefore_bindI2, simp)
  apply (rule stopsBefore_bindI2, simp)
  apply (rule stopsBefore_bindI2, simp)
  apply (rule stopsBefore_bindI2, simp)
  apply (rule stopsBefore_bindI2, rule fst_lookupEOP_model)
  apply (rule stopsBefore_bindI1)
  apply (rule stopsBefore_applyOverrides [OF assms])
  done

lemma bad_rows:
  assumes "\<not> (mxGetM (prhs ! 0) = 3 \<or> mxGetM (prhs ! 0) = 6)"
  shows "fst (mexFunction env nlhs prhs) = []"
    and "isl (snd (mexFunction env nlhs prhs))"
    and "3 \<le> length prhs \<Longrightarrow> length prhs \<le> 7 \<Longrightarrow> nlhs \<le> 2
         \<Longrightarrow> checkRealDoubleArray env (prhs ! 0)
         \<Longrightarrow> snd (mexFunction env nlhs prhs)
             = Inl (ErrMsgTxt ''The input vector has a bad dimensionality.'')"
  using assms
  by (auto simp add: mexFunction_def mexBind_def mexErrMsgTxt_def mexAbort_def mexReturn_def
        mexCheckRealDoubleArray_def Let_def)

lemma overrideDeltaT_ok:
  assumes "length prhs > 3 \<and> \<not> mxIsEmpty (prhs ! 3) \<longrightarrow> getDoubleFromMatlab env (prhs ! 3) \<noteq> None"
  shows "\<exists>e1. overrideDeltaT env prhs e = mexReturn e1"
  using assms
  by (auto simp add: overrideDeltaT_def mexGetDoubleFromMatlab_def)

lemma applyOverrides_bad_xpyp:
  assumes "length prhs > 3 \<and> \<not> mxIsEmpty (prhs ! 3) \<longrightarrow> getDoubleFromMatlab env (prhs ! 3) \<noteq> None"
    and "length prhs > 4" and "\<not> mxIsEmpty (prhs ! 4)"
    and "checkRealDoubleArray env (prhs ! 4)" and "\<not> isPair (prhs ! 4)"
  shows "applyOverrides env prhs TT1 TT2 e0
         = ([Call_iauTtut1],
            Inl (ErrMsgTxt ''The celestial pole offsets have the wrong dimensionality.''))"
proof -
  obtain e1 where e1: "overrideDeltaT env prhs e0 = mexReturn e1"
    using overrideDeltaT_ok [OF assms(1)] by blast
  show ?thesis
    by (simp add: applyOverrides_def e1 overridePolarMotion_bad [OF assms(2-5)]
          mexBind_mexLog mexErrMsgTxt_def mexAbort_def split: prod.splits)
qed

lemma applyOverrides_bad_dXdY:
  assumes "length prhs > 3 \<and> \<not> mxIsEmpty (prhs ! 3) \<longrightarrow> getDoubleFromMatlab env (prhs ! 3) \<noteq> None"
    and "\<not> mxIsEmpty (prhs ! 4) \<longrightarrow> checkRealDoubleArray env (prhs ! 4) \<and> isPair (prhs ! 4)"
    and "length prhs > 5" and "\<not> mxIsEmpty (prhs ! 5)"
    and "checkRealDoubleArray env (prhs ! 5)" and "\<not> isPair (prhs ! 5)"
  shows "applyOverrides env prhs TT1 TT2 e0
         = ([Call_iauTtut1],
            Inl (ErrMsgTxt ''The polar motion coordinates have the wrong dimensionality.''))"
proof -
  obtain e1 where e1: "overrideDeltaT env prhs e0 = mexReturn e1"
    using overrideDeltaT_ok [OF assms(1)] by blast
  have "\<exists>e2. overridePolarMotion env prhs e1 = mexReturn e2"
    using assms(2) by (auto simp add: overridePolarMotion_def mexCheckRealDoubleArray_def)
  then obtain e2 where e2: "overridePolarMotion env prhs e1 = mexReturn e2" by blast
  show ?thesis
    by (simp add: applyOverrides_def e1 e2 overridePoleOffsets_bad [OF assms(3-6)]
          mexBind_mexLog mexErrMsgTxt_def mexAbort_def split: prod.splits)
qed

lemma mexFunction_bad_xpyp:
  assumes "entryOK env nlhs prhs TT1 TT2"
    and "lookupEOP env prhs TT1 TT2 = (ev, Inr eL)"
    and "length prhs > 3 \<and> \<not> mxIsEmpty (prhs ! 3) \<longrightarrow> getDoubleFromMatlab env (prhs ! 3) \<noteq> None"
    and "length prhs > 4" and "\<not> mxIsEmpty (prhs ! 4)"
    and "checkRealDoubleArray env (prhs ! 4)" and "\<not> isPair (prhs ! 4)"
  shows "mexFunction env nlhs prhs
         = (ev @ [Call_iauTtut1],
            Inl (ErrMsgTxt ''The celestial pole offsets have the wrong dimensionality.''))"
  by (simp add: mexFunction_entry [OF assms(1)] assms(2)
        applyOverrides_bad_xpyp [OF assms(3-7)])

text \<open>
  Claim C3, as amended. A batch whose row count is neither 3 nor 6 makes the call fail
  before any collaborator is called, with the message of line 129 when the counts of
  arguments and the check of the array pass. A polar motion argument that is not empty
  and not a pair makes the call fail before any evaluation of the astronomical models
  of lines 253 to 303. The conversions of time scales and the lookup are not excluded:
  when the check of the shape is reached, the trace holds the events of the lookup
  followed by the conversion to UT1.
\<close>

theorem validation_errors:
  assumes "\<not> (mxGetM (prhs ! 0) = 3 \<or> mxGetM (prhs ! 0) = 6)"
    and "length prhs' > 4" and "\<not> mxIsEmpty (prhs' ! 4)" and "\<not> isPair (prhs' ! 4)"
  shows "fst (mexFunction env nlhs prhs) = [] \<and> isl (snd (mexFunction env nlhs prhs))
         \<and> (3 \<le> length prhs \<and> length prhs \<le> 7 \<and> nlhs \<le> 2
              \<and> checkRealDoubleArray env (prhs ! 0)
            \<longrightarrow> snd (mexFunction env nlhs prhs)
                = Inl (ErrMsgTxt ''The input vector has a bad dimensionality.''))
         \<and> isl (snd (mexFunction env' nlhs' prhs'))
         \<and> set (fst (mexFunction env' nlhs' prhs')) \<inter> modelEvents = {}
         \<and> (entryOK env' nlhs' prhs' TT1 TT2
              \<and> lookupEOP env' prhs' TT1 TT2 = (ev, Inr eL)
              \<and> (\<not> mxIsEmpty (prhs' ! 3) \<longrightarrow> getDoubleFromMatlab env' (prhs' ! 3) \<noteq> None)
              \<and> checkRealDoubleArray env' (prhs' ! 4)
            \<longrightarrow> fst (mexFunction env' nlhs' prhs') = ev @ [Call_iauTtut1])"
proof -
  have reached: "fst (mexFunction env' nlhs' prhs') = ev @ [Call_iauTtut1]"
    if "entryOK env' nlhs' prhs' TT1 TT2" and "lookupEOP env' prhs' TT1 TT2 = (ev, Inr eL)"
      and "\<not> mxIsEmpty (prhs' ! 3) \<longrightarrow> getDoubleFromMatlab env' (prhs' ! 3) \<noteq> None"
      and "checkRealDoubleArray env' (prhs' ! 4)"
    using mexFunction_bad_xpyp [OF that(1,2) _ assms(2,3) that(4) assms(4)] that(3) by simp
  show ?thesis
    using bad_rows [OF assms(1), where env = env and nlhs = nlhs]
      stopsBefore_mexFunction [OF assms(2-4), where env = env' and nlhs = nlhs'] reached
    by (simp add: stopsBefore_def)
qed

text \<open>
  Claim C3 as it is written fails: with five arguments, the fifth a polar motion of three
  elements, the error about the shape comes after the conversions to TAI and UTC, the
  call of \<open>getEOP\<close> and the conversion to UT1.
\<close>
theorem validation_errors_counterexample:
  "mexFunction (stubCollaborators 0) 2 demoArgs5BadXpyp
   = ([Call_iauTttai, Call_iauTaiutc, Call_getEOP, Call_iauTtut1],
      Inl (ErrMsgTxt ''The celestial pole offsets have the wrong dimensionality.''))"
  by code_simp

theorem validation_errors_witness:
  "\<not> (mxGetM (demoArgsBadRows ! 0) = 3 \<or> mxGetM (demoArgsBadRows ! 0) = 6)
   \<and> length demoArgs5BadXpyp > 4 \<and> \<not> mxIsEmpty (demoArgs5BadXpyp ! 4)
   \<and> \<not> isPair (demoArgs5BadXpyp ! 4)
   \<and> fst (mexFunction (stubCollaborators 0) 2 demoArgsBadRows) = []
   \<and> snd (mexFunction (stubCollaborators 0) 2 demoArgsBadRows)
       = Inl (ErrMsgTxt ''The input vector has a bad dimensionality.'')
   \<and> isl (snd (mexFunction (stubCollaborators 0) 2 demoArgs5BadXpyp))
   \<and> set (fst (mexFunction (stubCollaborators 0) 2 demoArgs5BadXpyp)) \<inter> modelEvents = {}
   \<and> fst (mexFunction (stubCollaborators 0) 2 demoArgs5BadXpyp)
       = [Call_iauTttai, Call_iauTaiutc, Call_getEOP] @ [Call_iauTtut1]"
proof -
  let ?env = "stubCollaborators 0"
  have h1: "\<not> (mxGetM (demoArgsBadRows ! 0) = 3 \<or> mxGetM (demoArgsBadRows ! 0) = 6)"
    by code_simp
  have h2: "length demoArgs5BadXpyp > 4" by code_simp
  have h3: "\<not> mxIsEmpty (demoArgs5BadXpyp ! 4)" by code_simp
  have h4: "\<not> isPair (demoArgs5BadXpyp ! 4)" by code_simp
  have g: "3 \<le> length demoArgsBadRows \<and> length demoArgsBadRows \<le> 7 \<and> (2::nat) \<le> 2
           \<and> checkRealDoubleArray ?env (demoArgsBadRows ! 0)"
    by code_simp
  have k: "entryOK ?env 2 demoArgs5BadXpyp 2400000 54195
           \<and> lookupEOP ?env demoArgs5BadXpyp 2400000 54195
               = ([Call_iauTttai, Call_iauTaiutc, Call_getEOP],
                  Inr \<lparr>xp = 1, yp = 2, dX = 3, dY = 4, deltaT = 5, LOD = 8640\<rparr>)
           \<and> (\<not> mxIsEmpty (demoArgs5BadXpyp ! 3)
                \<longrightarrow> getDoubleFromMatlab ?env (demoArgs5BadXpyp ! 3) \<noteq> None)
           \<and> checkRealDoubleArray ?env (demoArgs5BadXpyp ! 4)"
    by code_simp
  show ?thesis
    using validation_errors [OF h1 h2 h3 h4, where env = ?env and nlhs = 2
        and env' = ?env and nlhs' = 2 and ?TT1.0 = 2400000 and ?TT2.0 = 54195
        and ev = "[Call_iauTttai, Call_iauTaiutc, Call_getEOP]"
        and eL = "\<lparr>xp = 1, yp = 2, dX = 3, dY = 4, deltaT = 5, LOD = 8640\<rparr>"]
      h1 h2 h3 h4 g k
    by blast
qed

text \<open>
  Claim C10. When the call reaches the checks of the shapes, a fourth optional input
  (\<open>xpyp\<close>, the polar motion) that is not a pair ends it with the message about the
  celestial pole offsets, and a fifth optional input (\<open>dXdY\<close>, the celestial pole
  offsets) that is not a pair ends it with the message about the polar motion
  coordinates.
\<close>

theorem swapped_shape_messages:
  assumes "entryOK env nlhs prhs TT1 TT2"
    and "lookupEOP env prhs TT1 TT2 = (ev, Inr e0)"
    and "length prhs > 3 \<and> \<not> mxIsEmpty (prhs ! 3) \<longrightarrow> getDoubleFromMatlab env (prhs ! 3) \<noteq> None"
    and "length prhs > 4" and "\<not> mxIsEmpty (prhs ! 4)"
    and "checkRealDoubleArray env (prhs ! 4)" and "\<not> isPair (prhs ! 4)"
    and "entryOK env' nlhs' prhs' TT1' TT2'"
    and "lookupEOP env' prhs' TT1' TT2' = (ev', Inr e0')"
    and "length prhs' > 3 \<and> \<not> mxIsEmpty (prhs' ! 3)
         \<longrightarrow> getDoubleFromMatlab env' (prhs' ! 3) \<noteq> None"
    and "\<not> mxIsEmpty (prhs' ! 4) \<longrightarrow> checkRealDoubleArray env' (prhs' ! 4) \<and> isPair (prhs' ! 4)"
    and "length prhs' > 5" and "\<not> mxIsEmpty (prhs' ! 5)"
    and "checkRealDoubleArray env' (prhs' ! 5)" and "\<not> isPair (prhs' ! 5)"
  shows "mexFunction env nlhs prhs
           = (ev @ [Call_iauTtut1],
              Inl (ErrMsgTxt ''The celestial pole offsets have the wrong dimensionality.''))
         \<and> mexFunction env' nlhs' prhs'
           = (ev' @ [Call_iauTtut1],
              Inl (ErrMsgTxt ''The polar motion coordinates have the wrong dimensionality.''))"
proof
  show "mexFunction env nlhs prhs
           = (ev @ [Call_iauTtut1],
              Inl (ErrMsgTxt ''The celestial pole offsets have the wrong dimensionality.''))"
    by (rule mexFunction_bad_xpyp [OF assms(1-7)])
next
  show "mexFunction env' nlhs' prhs'
           = (ev' @ [Call_iauTtut1],
              Inl (ErrMsgTxt ''The polar motion coordinates have the wrong dimensionality.''))"
    by (simp add: mexFunction_entry [OF assms(8)] assms(9)
          applyOverrides_bad_dXdY [OF assms(10-15)])
qed

theorem swapped_shape_messages_witness:
  "entryOK (stubCollaborators 0) 2 demoArgsBadXpyp 2400000 54195
   \<and> \<not> isPair (demoArgsBadXpyp ! 4)
   \<and> entryOK (stubCollaborators 0) 2 demoArgsBadDXdY 2400000 54195
   \<and> \<not> isPair (demoArgsBadDXdY ! 5)
   \<and> mexFunction (stubCollaborators 0) 2 demoArgsBadXpyp
       = ([] @ [Call_iauTtut1],
          Inl (ErrMsgTxt ''The celestial pole offsets have the wrong dimensionality.''))
   \<and> mexFunction (stubCollaborators 0) 2 demoArgsBadDXdY
       = ([] @ [Call_iauTtut1],
          Inl (ErrMsgTxt ''The polar motion coordinates have the wrong dimensionality.''))"
proof -
  let ?env = "stubCollaborators 0"
  let ?z = "\<lparr>xp = 0, yp = 0, dX = 0, dY = 0, deltaT = 0, LOD = 0\<rparr>"
  have a1: "entryOK ?env 2 demoArgsBadXpyp 2400000 54195" by code_simp
  have a2: "lookupEOP ?env demoArgsBadXpyp 2400000 54195 = ([], Inr ?z)" by code_simp
  have a3: "length demoArgsBadXpyp > 3 \<and> \<not> mxIsEmpty (demoArgsBadXpyp ! 3)
            \<longrightarrow> getDoubleFromMatlab ?env (demoArgsBadXpyp ! 3) \<noteq> None" by code_simp
  have a4: "length demoArgsBadXpyp > 4" by code_simp
  have a5: "\<not> mxIsEmpty (demoArgsBadXpyp ! 4)" by code_simp
  have a6: "checkRealDoubleArray ?env (demoArgsBadXpyp ! 4)" by code_simp
  have a7: "\<not> isPair (demoArgsBadXpyp ! 4)" by code_simp
  have b1: "entryOK ?env 2 demoArgsBadDXdY 2400000 54195" by code_simp
  have b2: "lookupEOP ?env demoArgsBadDXdY 2400000 54195 = ([], Inr ?z)" by code_simp
  have b3: "length demoArgsBadDXdY > 3 \<and> \<not> mxIsEmpty (demoArgsBadDXdY ! 3)
            \<longrightarrow> getDoubleFromMatlab ?env (demoArgsBadDXdY ! 3) \<noteq> None" by code_simp
  have b4: "\<not> mxIsEmpty (demoArgsBadDXdY ! 4)
            \<longrightarrow> checkRealDoubleArray ?env (demoArgsBadDXdY ! 4) \<and> isPair (demoArgsBadDXdY ! 4)"
    by code_simp
  have b5: "length demoArgsBadDXdY > 5" by code_simp
  have b6: "\<not> mxIsEmpty (demoArgsBadDXdY ! 5)" by code_simp
  have b7: "checkRealDoubleArray ?env (demoArgsBadDXdY ! 5)" by code_simp
  have b8: "\<not> isPair (demoArgsBadDXdY ! 5)" by code_simp
  show ?thesis
    using swapped_shape_messages [OF a1 a2 a3 a4 a5 a6 a7 b1 b2 b3 b4 b5 b6 b7 b8] a1 a7 b1 b8
    by blast
qed

section \<open>Dubious and unacceptable dates\<close>

lemma taiutc_free:
  "mexCheckRealDoubleArray (env\<lparr>iauTaiutc := g\<rparr>) = mexCheckRealDoubleArray env"
  "mexGetDoubleFromMatlab (env\<lparr>iauTaiutc := g\<rparr>) = mexGetDoubleFromMatlab env"
  by (intro ext, simp add: mexCheckRealDoubleArray_def mexGetDoubleFromMatlab_def)+

lemma fetchEOP_taiutc_free: "fetchEOP (env\<lparr>iauTaiutc := g\<rparr>) = fetchEOP env"
  by (intro ext) (simp add: fetchEOP_def taiutc_free split: option.splits prod.splits)

lemma overrides_taiutc_free:
  "overrideDeltaT (env\<lparr>iauTaiutc := g\<rparr>) = overrideDeltaT env"
  "overridePolarMotion (env\<lparr>iauTaiutc := g\<rparr>) = overridePolarMotion env"
  "overridePoleOffsets (env\<lparr>iauTaiutc := g\<rparr>) = overridePoleOffsets env"
  "overrideLOD (env\<lparr>iauTaiutc := g\<rparr>) = overrideLOD env"
  by (intro ext,
      simp add: overrideDeltaT_def overridePolarMotion_def overridePoleOffsets_def
        overrideLOD_def taiutc_free)+

lemma applyOverrides_taiutc_free:
  "applyOverrides (env\<lparr>iauTaiutc := g\<rparr>) = applyOverrides env"
  by (intro ext) (simp add: applyOverrides_def overrides_taiutc_free)

lemma composeRotation_taiutc_free:
  "composeRotation (env\<lparr>iauTaiutc := g\<rparr>) = composeRotation env"
  by (intro ext) (simp add: composeRotation_eq composedRotation_def)

lemma entryOK_taiutc_free:
  "entryOK (env\<lparr>iauTaiutc := g\<rparr>) nlhs prhs TT1 TT2 = entryOK env nlhs prhs TT1 TT2"
  by (simp add: entryOK_def)

lemma lookupEOP_status:
  assumes "needsEOP prhs" and "iauTttai env TT1 TT2 = (0, TAI1, TAI2)"
    and "iauTaiutc env TAI1 TAI2 = (st, UTC1, UTC2)"
  shows "lookupEOP env prhs TT1 TT2
         = (if st = - 1
            then ([Call_iauTttai, Call_iauTaiutc], Inl (ErrMsgTxt ''Unacceptable date entered''))
            else (Call_iauTttai # Call_iauTaiutc
                    # (if st = 1 then [WarnMsgTxt ''Dubious Date entered.''] else [])
                    @ fst (fetchEOP env UTC1 UTC2),
                  snd (fetchEOP env UTC1 UTC2)))"
  using assms
  by (simp add: lookupEOP_def mexBind_mexLog mexBind_def mexWarnMsgTxt_def mexLog_def
        mexErrMsgTxt_def mexAbort_def mexReturn_def)

lemma mexBind_extra_events:
  "mexBind (a # b # w # es, r) K = (a # b # w # drop 2 (fst (mexBind (a # b # es, r) K)),
                                     snd (mexBind (a # b # es, r) K))"
  by (simp add: mexBind_def split: sum.splits)

text \<open>
  Claim C6. On the path of the lookup, with the conversion to TAI reporting no error: if
  the conversion to UTC reports an unacceptable date (status -1) the call ends with that
  error right after the two conversions, with no output; if it reports a dubious date
  (status 1) the call prints the warning after the two conversions and goes on exactly
  as the same call does when the conversion reports the same date with status 0.
\<close>

theorem dubious_warns_unacceptable_aborts:
  assumes "entryOK env nlhs prhs TT1 TT2" and "needsEOP prhs"
    and "iauTttai env TT1 TT2 = (0, TAI1, TAI2)"
    and "iauTaiutc env TAI1 TAI2 = (- 1, UTC1, UTC2)"
    and "entryOK env' nlhs' prhs' TT1' TT2'" and "needsEOP prhs'"
    and "iauTttai env' TT1' TT2' = (0, TAI1', TAI2')"
    and "iauTaiutc env' TAI1' TAI2' = (1, UTC1', UTC2')"
  shows "mexFunction env nlhs prhs
           = ([Call_iauTttai, Call_iauTaiutc], Inl (ErrMsgTxt ''Unacceptable date entered''))
         \<and> mexFunction env' nlhs' prhs'
           = (Call_iauTttai # Call_iauTaiutc # WarnMsgTxt ''Dubious Date entered.''
                # drop 2 (fst (mexFunction (env'\<lparr>iauTaiutc := \<lambda>a b. (0, UTC1', UTC2')\<rparr>)
                                 nlhs' prhs')),
              snd (mexFunction (env'\<lparr>iauTaiutc := \<lambda>a b. (0, UTC1', UTC2')\<rparr>) nlhs' prhs'))"
proof
  show "mexFunction env nlhs prhs
           = ([Call_iauTttai, Call_iauTaiutc], Inl (ErrMsgTxt ''Unacceptable date entered''))"
    by (simp add: mexFunction_entry [OF assms(1)] lookupEOP_status [OF assms(2-4)])
next
  let ?env0 = "env'\<lparr>iauTaiutc := \<lambda>a b. (0, UTC1', UTC2')\<rparr>"
  have ok0: "entryOK ?env0 nlhs' prhs' TT1' TT2'"
    using assms(5) by (simp add: entryOK_taiutc_free)
  have t0: "iauTttai ?env0 TT1' TT2' = (0, TAI1', TAI2')" using assms(7) by simp
  have u0: "iauTaiutc ?env0 TAI1' TAI2' = (0, UTC1', UTC2')" by simp
  have l1: "lookupEOP env' prhs' TT1' TT2'
            = (Call_iauTttai # Call_iauTaiutc # WarnMsgTxt ''Dubious Date entered.''
                 # fst (fetchEOP env' UTC1' UTC2'), snd (fetchEOP env' UTC1' UTC2'))"
    by (simp add: lookupEOP_status [OF assms(6-8)])
  have l0: "lookupEOP ?env0 prhs' TT1' TT2'
            = (Call_iauTttai # Call_iauTaiutc
                 # fst (fetchEOP env' UTC1' UTC2'), snd (fetchEOP env' UTC1' UTC2'))"
    by (simp add: lookupEOP_status [OF assms(6) t0 u0] fetchEOP_taiutc_free)
  show "mexFunction env' nlhs' prhs'
           = (Call_iauTttai # Call_iauTaiutc # WarnMsgTxt ''Dubious Date entered.''
                # drop 2 (fst (mexFunction ?env0 nlhs' prhs')),
              snd (mexFunction ?env0 nlhs' prhs'))"
    unfolding mexFunction_entry [OF assms(5)] mexFunction_entry [OF ok0] l1 l0
      applyOverrides_taiutc_free composeRotation_taiutc_free
    by (rule mexBind_extra_events)
qed

theorem dubious_warns_unacceptable_aborts_witness:
  "entryOK (stubCollaborators (- 1)) 2 demoArgs3 2400000 54195 \<and> needsEOP demoArgs3
   \<and> iauTaiutc (stubCollaborators (- 1)) 2400000 54195 = (- 1, 2400000, 54195)
   \<and> iauTaiutc (stubCollaborators 1) 2400000 54195 = (1, 2400000, 54195)
   \<and> mexFunction (stubCollaborators (- 1)) 2 demoArgs3
       = ([Call_iauTttai, Call_iauTaiutc], Inl (ErrMsgTxt ''Unacceptable date entered''))
   \<and> mexFunction (stubCollaborators 1) 2 demoArgs3
       = (Call_iauTttai # Call_iauTaiutc # WarnMsgTxt ''Dubious Date entered.''
            # drop 2 (fst (mexFunction
                 ((stubCollaborators 1)\<lparr>iauTaiutc := \<lambda>a b. (0, 2400000, 54195)\<rparr>) 2 demoArgs3)),
          snd (mexFunction
                 ((stubCollaborators 1)\<lparr>iauTaiutc := \<lambda>a b. (0, 2400000, 54195)\<rparr>) 2 demoArgs3))
   \<and> \<not> isl (snd (mexFunction (stubCollaborators 1) 2 demoArgs3))"
proof -
  have a1: "entryOK (stubCollaborators (- 1)) 2 demoArgs3 2400000 54195" by code_simp
  have a2: "needsEOP demoArgs3" by code_simp
  have a3: "iauTttai (stubCollaborators (- 1)) 2400000 54195 = (0, 2400000, 54195)"
    by code_simp
  have a4: "iauTaiutc (stubCollaborators (- 1)) 2400000 54195 = (- 1, 2400000, 54195)"
    by code_simp
  have b1: "entryOK (stubCollaborators 1) 2 demoArgs3 2400000 54195" by code_simp
  have b3: "iauTttai (stubCollaborators 1) 2400000 54195 = (0, 2400000, 54195)"
    by code_simp
  have b4: "iauTaiutc (stubCollaborators 1) 2400000 54195 = (1, 2400000, 54195)"
    by code_simp
  have r: "\<not> isl (snd (mexFunction (stubCollaborators 1) 2 demoArgs3))" by code_simp
  show ?thesis
    using dubious_warns_unacceptable_aborts [OF a1 a2 a3 a4 b1 a2 b3 b4] a1 a2 a4 b4 r
    by blast
qed

section \<open>The lookup and the values of the caller\<close>

lemma applyOverrides_none:
  assumes "length prhs = 3"
  shows "applyOverrides env prhs TT1 TT2 e0
         = ([Call_iauTtut1], Inr (e0, iauTtut1 env TT1 TT2 (deltaT e0)))"
  using assms
  by (simp add: applyOverrides_def overrideDeltaT_def overridePolarMotion_def
        overridePoleOffsets_def overrideLOD_def mexBind_mexLog mexReturn_def
        split: prod.splits)

lemma applyOverrides_all:
  assumes "length prhs = 7"
    and "\<not> mxIsEmpty (prhs ! 3)" and "getDoubleFromMatlab env (prhs ! 3) = Some dT"
    and "\<not> mxIsEmpty (prhs ! 4)" and "checkRealDoubleArray env (prhs ! 4)" and "isPair (prhs ! 4)"
    and "\<not> mxIsEmpty (prhs ! 5)" and "checkRealDoubleArray env (prhs ! 5)" and "isPair (prhs ! 5)"
    and "\<not> mxIsEmpty (prhs ! 6)" and "getDoubleFromMatlab env (prhs ! 6) = Some lod"
  shows "applyOverrides env prhs TT1 TT2 e0
         = ([Call_iauTtut1],
            Inr (\<lparr>xp = mxGetData (prhs ! 4) ! 0, yp = mxGetData (prhs ! 4) ! 1,
                  dX = mxGetData (prhs ! 5) ! 0, dY = mxGetData (prhs ! 5) ! 1,
                  deltaT = dT, LOD = lod\<rparr>,
                 iauTtut1 env TT1 TT2 dT))"
proof -
  have d: "\<And>e. overrideDeltaT env prhs e = mexReturn (e\<lparr>deltaT := dT\<rparr>)"
    using assms by (simp add: overrideDeltaT_given)
  have p: "\<And>e. overridePolarMotion env prhs e
             = mexReturn (e\<lparr>xp := mxGetData (prhs ! 4) ! 0, yp := mxGetData (prhs ! 4) ! 1\<rparr>)"
    using assms by (simp add: overridePolarMotion_given)
  have c: "\<And>e. overridePoleOffsets env prhs e
             = mexReturn (e\<lparr>dX := mxGetData (prhs ! 5) ! 0, dY := mxGetData (prhs ! 5) ! 1\<rparr>)"
    using assms by (simp add: overridePoleOffsets_given)
  have l: "\<And>e. overrideLOD env prhs e = mexReturn (e\<lparr>LOD := lod\<rparr>)"
    using assms by (simp add: overrideLOD_given)
  show ?thesis
    by (simp add: applyOverrides_def d p c l mexBind_mexLog mexReturn_def split: prod.splits)
qed

lemma fetchEOP_ok:
  assumes "getEOP env UTC1 UTC2 = Some (r0, r1, r2, r3, r4)"
    and "checkRealDoubleArray env r0" and "checkRealDoubleArray env r1"
    and "mxGetM r0 = 2" and "mxGetN r0 = 1" and "mxGetM r1 = 2" and "mxGetN r1 = 1"
    and "getDoubleFromMatlab env r3 = Some dT" and "getDoubleFromMatlab env r4 = Some lod"
  shows "fetchEOP env UTC1 UTC2
         = ([Call_getEOP],
            Inr \<lparr>xp = mxGetData r0 ! 0, yp = mxGetData r0 ! 1,
                 dX = mxGetData r1 ! 0, dY = mxGetData r1 ! 1, deltaT = dT, LOD = lod\<rparr>)"
  using assms
  by (simp add: fetchEOP_def mexBind_mexLog mexCheckRealDoubleArray_def
        mexGetDoubleFromMatlab_def mexReturn_def)

lemma entryOK_take3:
  assumes "entryOK env nlhs prhs TT1 TT2"
  shows "entryOK env nlhs (take 3 prhs) TT1 TT2"
  using assms by (simp add: entryOK_def)

lemma mexFunction_from_eop:
  assumes "entryOK env nlhs prhs TT1 TT2"
    and "lookupEOP env prhs TT1 TT2 = (ev1, Inr e0)"
    and "applyOverrides env prhs TT1 TT2 e0 = (ev2, Inr (e, UT11, UT12))"
  shows "mexFunction env nlhs prhs
         = (ev1 @ ev2 @ composeTrace,
            Inr \<lparr>vec = realDoubleMatrix (mxGetM (prhs ! 0)) (mxGetN (prhs ! 0))
                   (transformBatch (composedRotation env TT1 TT2 UT11 UT12 e)
                      (mxGetM (prhs ! 0)) (mxGetN (prhs ! 0)) (mxGetData (prhs ! 0))),
                 rotMat = (if nlhs > 1
                   then Some (rotMatOut (GCRS2ITRS (composedRotation env TT1 TT2 UT11 UT12 e)))
                   else None)\<rparr>)"
  by (simp add: mexFunction_entry [OF assms(1)] assms(2,3) composeRotation_eq mexReturn_def)

lemma overrides_merge:
  "isGiven prhs 3 \<longrightarrow> getDoubleFromMatlab env (prhs ! 3) = Some dT
   \<Longrightarrow> overrideDeltaT env prhs e
       = mexReturn (e\<lparr>deltaT := (if isGiven prhs 3 then dT else deltaT e)\<rparr>)"
  "isGiven prhs 4 \<longrightarrow> checkRealDoubleArray env (prhs ! 4) \<and> isPair (prhs ! 4)
   \<Longrightarrow> overridePolarMotion env prhs e
       = mexReturn (e\<lparr>xp := (if isGiven prhs 4 then mxGetData (prhs ! 4) ! 0 else xp e),
                        yp := (if isGiven prhs 4 then mxGetData (prhs ! 4) ! 1 else yp e)\<rparr>)"
  "isGiven prhs 5 \<longrightarrow> checkRealDoubleArray env (prhs ! 5) \<and> isPair (prhs ! 5)
   \<Longrightarrow> overridePoleOffsets env prhs e
       = mexReturn (e\<lparr>dX := (if isGiven prhs 5 then mxGetData (prhs ! 5) ! 0 else dX e),
                        dY := (if isGiven prhs 5 then mxGetData (prhs ! 5) ! 1 else dY e)\<rparr>)"
  "isGiven prhs 6 \<longrightarrow> getDoubleFromMatlab env (prhs ! 6) = Some lod
   \<Longrightarrow> overrideLOD env prhs e
       = mexReturn (e\<lparr>LOD := (if isGiven prhs 6 then lod else LOD e)\<rparr>)"
  by (simp_all add: isGiven_def overrideDeltaT_def overridePolarMotion_def
        overridePoleOffsets_def overrideLOD_def mexGetDoubleFromMatlab_def
        mexCheckRealDoubleArray_def)

lemma applyOverrides_merge:
  assumes "isGiven prhs 3 \<longrightarrow> getDoubleFromMatlab env (prhs ! 3) = Some dT"
    and "isGiven prhs 4 \<longrightarrow> checkRealDoubleArray env (prhs ! 4) \<and> isPair (prhs ! 4)"
    and "isGiven prhs 5 \<longrightarrow> checkRealDoubleArray env (prhs ! 5) \<and> isPair (prhs ! 5)"
    and "isGiven prhs 6 \<longrightarrow> getDoubleFromMatlab env (prhs ! 6) = Some lod"
  shows "applyOverrides env prhs TT1 TT2 e0
         = ([Call_iauTtut1],
            Inr (mergeEOP prhs dT lod e0,
                 iauTtut1 env TT1 TT2 (deltaT (mergeEOP prhs dT lod e0))))"
  by (simp add: applyOverrides_def overrides_merge(1) [OF assms(1)]
        overrides_merge(2) [OF assms(2)] overrides_merge(3) [OF assms(3)]
        overrides_merge(4) [OF assms(4)] mexBind_mexLog mexReturn_def mergeEOP_def
        split: prod.splits)

lemma needsEOP_isGiven:
  "needsEOP prhs = (\<not> (isGiven prhs 3 \<and> isGiven prhs 4 \<and> isGiven prhs 5 \<and> isGiven prhs 6))"
  by (auto simp add: needsEOP_def isGiven_def)

text \<open>
  Claim C4. With seven arguments, the four optional ones not empty and well formed, the
  call makes none of the calls of the lookup (no conversion to TAI and UTC, no call of
  \<open>getEOP\<close>) and succeeds, and the call with the first three arguments only returns the
  same vectors and the same rotation matrix when \<open>getEOP\<close> answers the same numbers.
  The values of the caller replace those of the lookup one group at a time, in every
  call: the lookup runs exactly when one of the four groups is not given, each group
  that is given and well formed is the caller's, each other group stays that of the
  lookup, and the outputs are computed from the parameters so merged.
\<close>

theorem full_override_equivalence:
  assumes "entryOK env nlhs prhs TT1 TT2" and "length prhs = 7"
    and "\<not> mxIsEmpty (prhs ! 3)" and "getDoubleFromMatlab env (prhs ! 3) = Some dT"
    and "\<not> mxIsEmpty (prhs ! 4)" and "checkRealDoubleArray env (prhs ! 4)" and "isPair (prhs ! 4)"
    and "\<not> mxIsEmpty (prhs ! 5)" and "checkRealDoubleArray env (prhs ! 5)" and "isPair (prhs ! 5)"
    and "\<not> mxIsEmpty (prhs ! 6)" and "getDoubleFromMatlab env (prhs ! 6) = Some lod"
    and "iauTttai env TT1 TT2 = (0, TAI1, TAI2)"
    and "iauTaiutc env TAI1 TAI2 = (st, UTC1, UTC2)" and "st \<noteq> - 1"
    and "getEOP env UTC1 UTC2 = Some (r0, r1, r2, r3, r4)"
    and "checkRealDoubleArray env r0" and "checkRealDoubleArray env r1"
    and "mxGetM r0 = 2" and "mxGetN r0 = 1" and "mxGetM r1 = 2" and "mxGetN r1 = 1"
    and "getDoubleFromMatlab env r3 = Some dT" and "getDoubleFromMatlab env r4 = Some lod"
    and "mxGetData r0 ! 0 = mxGetData (prhs ! 4) ! 0"
    and "mxGetData r0 ! 1 = mxGetData (prhs ! 4) ! 1"
    and "mxGetData r1 ! 0 = mxGetData (prhs ! 5) ! 0"
    and "mxGetData r1 ! 1 = mxGetData (prhs ! 5) ! 1"
    and "isGiven prhs' 3 \<longrightarrow> getDoubleFromMatlab env' (prhs' ! 3) = Some dT'"
    and "isGiven prhs' 4 \<longrightarrow> checkRealDoubleArray env' (prhs' ! 4) \<and> isPair (prhs' ! 4)"
    and "isGiven prhs' 5 \<longrightarrow> checkRealDoubleArray env' (prhs' ! 5) \<and> isPair (prhs' ! 5)"
    and "isGiven prhs' 6 \<longrightarrow> getDoubleFromMatlab env' (prhs' ! 6) = Some lod'"
  shows "set (fst (mexFunction env nlhs prhs)) \<inter> dateEvents = {}
         \<and> (\<exists>out. snd (mexFunction env nlhs prhs) = Inr out
                  \<and> snd (mexFunction env nlhs (take 3 prhs)) = Inr out)
         \<and> needsEOP prhs'
             = (\<not> (isGiven prhs' 3 \<and> isGiven prhs' 4 \<and> isGiven prhs' 5 \<and> isGiven prhs' 6))
         \<and> applyOverrides env' prhs' TT1' TT2' eL
             = ([Call_iauTtut1],
                Inr (mergeEOP prhs' dT' lod' eL,
                     iauTtut1 env' TT1' TT2' (deltaT (mergeEOP prhs' dT' lod' eL))))
         \<and> (entryOK env' nlhs' prhs' TT1' TT2'
              \<and> lookupEOP env' prhs' TT1' TT2' = (evL, Inr eL)
            \<longrightarrow> mexFunction env' nlhs' prhs'
                = (evL @ [Call_iauTtut1] @ composeTrace,
                   Inr \<lparr>vec = realDoubleMatrix (mxGetM (prhs' ! 0)) (mxGetN (prhs' ! 0))
                          (transformBatch
                             (composedRotation env' TT1' TT2'
                                (fst (iauTtut1 env' TT1' TT2' (deltaT (mergeEOP prhs' dT' lod' eL))))
                                (snd (iauTtut1 env' TT1' TT2' (deltaT (mergeEOP prhs' dT' lod' eL))))
                                (mergeEOP prhs' dT' lod' eL))
                             (mxGetM (prhs' ! 0)) (mxGetN (prhs' ! 0)) (mxGetData (prhs' ! 0))),
                        rotMat = (if nlhs' > 1
                          then Some (rotMatOut (GCRS2ITRS
                             (composedRotation env' TT1' TT2'
                                (fst (iauTtut1 env' TT1' TT2' (deltaT (mergeEOP prhs' dT' lod' eL))))
                                (snd (iauTtut1 env' TT1' TT2' (deltaT (mergeEOP prhs' dT' lod' eL))))
                                (mergeEOP prhs' dT' lod' eL))))
                          else None)\<rparr>))"
proof -
  have n: "\<not> needsEOP prhs" using assms(2,3,5,8,11) by (rule not_needsEOP)
  have a: "set (fst (mexFunction env nlhs prhs)) \<inter> dateEvents = {}"
    using avoids_mexFunction_skip [OF n] by (simp add: avoids_def)
  obtain U1 U2 where u: "iauTtut1 env TT1 TT2 dT = (U1, U2)" by (cases "iauTtut1 env TT1 TT2 dT")
  let ?e = "\<lparr>xp = mxGetData (prhs ! 4) ! 0, yp = mxGetData (prhs ! 4) ! 1,
             dX = mxGetData (prhs ! 5) ! 0, dY = mxGetData (prhs ! 5) ! 1,
             deltaT = dT, LOD = lod\<rparr>"
  have oA: "applyOverrides env prhs TT1 TT2
              \<lparr>xp = 0, yp = 0, dX = 0, dY = 0, deltaT = 0, LOD = 0\<rparr>
            = ([Call_iauTtut1], Inr (?e, U1, U2))"
    by (simp add: applyOverrides_all [OF assms(2-12)] u)
  have lA: "lookupEOP env prhs TT1 TT2
            = ([], Inr \<lparr>xp = 0, yp = 0, dX = 0, dY = 0, deltaT = 0, LOD = 0\<rparr>)"
    by (simp add: lookupEOP_skip [OF n] mexReturn_def)
  note A = mexFunction_from_eop [OF assms(1) lA oA]
  have okB: "entryOK env nlhs (take 3 prhs) TT1 TT2" using assms(1) by (rule entryOK_take3)
  have lenB: "length (take 3 prhs) = 3" using assms(2) by simp
  have nB: "needsEOP (take 3 prhs)" using lenB by (simp add: needsEOP_def)
  have lB: "lookupEOP env (take 3 prhs) TT1 TT2
            = (Call_iauTttai # Call_iauTaiutc
                 # (if st = 1 then [WarnMsgTxt ''Dubious Date entered.''] else [])
                 @ [Call_getEOP], Inr ?e)"
    using assms(15,25-28)
    by (simp add: lookupEOP_status [OF nB assms(13,14)] fetchEOP_ok [OF assms(16-24)])
  have oB: "applyOverrides env (take 3 prhs) TT1 TT2 ?e = ([Call_iauTtut1], Inr (?e, U1, U2))"
    by (simp add: applyOverrides_none [OF lenB] u)
  note B = mexFunction_from_eop [OF okB lB oB]
  have b: "\<exists>out. snd (mexFunction env nlhs prhs) = Inr out
                 \<and> snd (mexFunction env nlhs (take 3 prhs)) = Inr out"
    using assms(2) by (simp add: A B)
  let ?M = "mergeEOP prhs' dT' lod' eL"
  have c: "needsEOP prhs'
           = (\<not> (isGiven prhs' 3 \<and> isGiven prhs' 4 \<and> isGiven prhs' 5 \<and> isGiven prhs' 6))"
    by (rule needsEOP_isGiven)
  have d: "applyOverrides env' prhs' TT1' TT2' eL
           = ([Call_iauTtut1], Inr (?M, iauTtut1 env' TT1' TT2' (deltaT ?M)))"
    by (rule applyOverrides_merge [OF assms(29-32)])
  have d': "applyOverrides env' prhs' TT1' TT2' eL
            = ([Call_iauTtut1],
               Inr (?M, fst (iauTtut1 env' TT1' TT2' (deltaT ?M)),
                        snd (iauTtut1 env' TT1' TT2' (deltaT ?M))))"
    using d by simp
  have e: "mexFunction env' nlhs' prhs'
           = (evL @ [Call_iauTtut1] @ composeTrace,
              Inr \<lparr>vec = realDoubleMatrix (mxGetM (prhs' ! 0)) (mxGetN (prhs' ! 0))
                     (transformBatch
                        (composedRotation env' TT1' TT2'
                           (fst (iauTtut1 env' TT1' TT2' (deltaT ?M)))
                           (snd (iauTtut1 env' TT1' TT2' (deltaT ?M))) ?M)
                        (mxGetM (prhs' ! 0)) (mxGetN (prhs' ! 0)) (mxGetData (prhs' ! 0))),
                   rotMat = (if nlhs' > 1
                     then Some (rotMatOut (GCRS2ITRS
                        (composedRotation env' TT1' TT2'
                           (fst (iauTtut1 env' TT1' TT2' (deltaT ?M)))
                           (snd (iauTtut1 env' TT1' TT2' (deltaT ?M))) ?M)))
                     else None)\<rparr>)"
    if "entryOK env' nlhs' prhs' TT1' TT2'" and "lookupEOP env' prhs' TT1' TT2' = (evL, Inr eL)"
    by (rule mexFunction_from_eop [OF that d'])
  show ?thesis using a b c d e by blast
qed

theorem full_override_equivalence_witness:
  "entryOK (stubCollaborators 0) 2 demoArgs7 2400000 54195 \<and> length demoArgs7 = 7
   \<and> getEOP (stubCollaborators 0) 2400000 54195
       = Some (realDoubleMatrix 2 1 [1, 2], realDoubleMatrix 2 1 [3, 4], scalarDouble 0,
               scalarDouble 5, scalarDouble 8640)
   \<and> isGiven demoArgsMixed 3 \<and> \<not> isGiven demoArgsMixed 4
   \<and> isGiven demoArgsMixed 5 \<and> \<not> isGiven demoArgsMixed 6
   \<and> set (fst (mexFunction (stubCollaborators 0) 2 demoArgs7)) \<inter> dateEvents = {}
   \<and> (\<exists>out. snd (mexFunction (stubCollaborators 0) 2 demoArgs7) = Inr out
            \<and> snd (mexFunction (stubCollaborators 0) 2 (take 3 demoArgs7)) = Inr out)
   \<and> needsEOP demoArgsMixed
   \<and> mergeEOP demoArgsMixed 7 0 \<lparr>xp = 1, yp = 2, dX = 3, dY = 4, deltaT = 5, LOD = 8640\<rparr>
       = \<lparr>xp = 1, yp = 2, dX = 30, dY = 40, deltaT = 7, LOD = 8640\<rparr>
   \<and> applyOverrides (stubCollaborators 0) demoArgsMixed 2400000 54195
         \<lparr>xp = 1, yp = 2, dX = 3, dY = 4, deltaT = 5, LOD = 8640\<rparr>
       = ([Call_iauTtut1],
          Inr (\<lparr>xp = 1, yp = 2, dX = 30, dY = 40, deltaT = 7, LOD = 8640\<rparr>,
               iauTtut1 (stubCollaborators 0) 2400000 54195 7))
   \<and> fst (mexFunction (stubCollaborators 0) 2 demoArgsMixed)
       = [Call_iauTttai, Call_iauTaiutc, Call_getEOP] @ [Call_iauTtut1] @ composeTrace
   \<and> rotMat (projr (snd (mexFunction (stubCollaborators 0) 2 demoArgsMixed)))
       = Some (rotMatOut (GCRS2ITRS (composedRotation (stubCollaborators 0) 2400000 54195
            (fst (iauTtut1 (stubCollaborators 0) 2400000 54195 7))
            (snd (iauTtut1 (stubCollaborators 0) 2400000 54195 7))
            \<lparr>xp = 1, yp = 2, dX = 30, dY = 40, deltaT = 7, LOD = 8640\<rparr>)))"
proof -
  let ?env = "stubCollaborators 0"
  have h1: "entryOK ?env 2 demoArgs7 2400000 54195" by code_simp
  have h2: "length demoArgs7 = 7" by code_simp
  have h3: "\<not> mxIsEmpty (demoArgs7 ! 3)" by code_simp
  have h4: "getDoubleFromMatlab ?env (demoArgs7 ! 3) = Some 5" by code_simp
  have h5: "\<not> mxIsEmpty (demoArgs7 ! 4)" by code_simp
  have h6: "checkRealDoubleArray ?env (demoArgs7 ! 4)" by code_simp
  have h7: "isPair (demoArgs7 ! 4)" by code_simp
  have h8: "\<not> mxIsEmpty (demoArgs7 ! 5)" by code_simp
  have h9: "checkRealDoubleArray ?env (demoArgs7 ! 5)" by code_simp
  have h10: "isPair (demoArgs7 ! 5)" by code_simp
  have h11: "\<not> mxIsEmpty (demoArgs7 ! 6)" by code_simp
  have h12: "getDoubleFromMatlab ?env (demoArgs7 ! 6) = Some 8640" by code_simp
  have h13: "iauTttai ?env 2400000 54195 = (0, 2400000, 54195)" by code_simp
  have h14: "iauTaiutc ?env 2400000 54195 = (0, 2400000, 54195)" by code_simp
  have h15: "(0::int) \<noteq> - 1" by simp
  have h16: "getEOP ?env 2400000 54195
             = Some (realDoubleMatrix 2 1 [1, 2], realDoubleMatrix 2 1 [3, 4], scalarDouble 0,
                     scalarDouble 5, scalarDouble 8640)" by code_simp
  have h17: "checkRealDoubleArray ?env (realDoubleMatrix 2 1 [1, 2])" by code_simp
  have h18: "checkRealDoubleArray ?env (realDoubleMatrix 2 1 [3, 4])" by code_simp
  have h19: "mxGetM (realDoubleMatrix 2 1 [1, 2]) = 2" by code_simp
  have h20: "mxGetN (realDoubleMatrix 2 1 [1, 2]) = 1" by code_simp
  have h21: "mxGetM (realDoubleMatrix 2 1 [3, 4]) = 2" by code_simp
  have h22: "mxGetN (realDoubleMatrix 2 1 [3, 4]) = 1" by code_simp
  have h23: "getDoubleFromMatlab ?env (scalarDouble 5) = Some 5" by code_simp
  have h24: "getDoubleFromMatlab ?env (scalarDouble 8640) = Some 8640" by code_simp
  have h25: "mxGetData (realDoubleMatrix 2 1 [1, 2]) ! 0 = mxGetData (demoArgs7 ! 4) ! 0"
    by code_simp
  have h26: "mxGetData (realDoubleMatrix 2 1 [1, 2]) ! 1 = mxGetData (demoArgs7 ! 4) ! 1"
    by code_simp
  have h27: "mxGetData (realDoubleMatrix 2 1 [3, 4]) ! 0 = mxGetData (demoArgs7 ! 5) ! 0"
    by code_simp
  have h28: "mxGetData (realDoubleMatrix 2 1 [3, 4]) ! 1 = mxGetData (demoArgs7 ! 5) ! 1"
    by code_simp
  let ?eL = "\<lparr>xp = 1, yp = 2, dX = 3, dY = 4, deltaT = 5, LOD = 8640\<rparr>"
  have h29: "isGiven demoArgsMixed 3 \<longrightarrow> getDoubleFromMatlab ?env (demoArgsMixed ! 3) = Some 7"
    by code_simp
  have h30: "isGiven demoArgsMixed 4
             \<longrightarrow> checkRealDoubleArray ?env (demoArgsMixed ! 4) \<and> isPair (demoArgsMixed ! 4)"
    by code_simp
  have h31: "isGiven demoArgsMixed 5
             \<longrightarrow> checkRealDoubleArray ?env (demoArgsMixed ! 5) \<and> isPair (demoArgsMixed ! 5)"
    by code_simp
  have h32: "isGiven demoArgsMixed 6 \<longrightarrow> getDoubleFromMatlab ?env (demoArgsMixed ! 6) = Some 0"
    by code_simp
  have g: "isGiven demoArgsMixed 3 \<and> \<not> isGiven demoArgsMixed 4
           \<and> isGiven demoArgsMixed 5 \<and> \<not> isGiven demoArgsMixed 6" by code_simp
  have m: "mergeEOP demoArgsMixed 7 0 ?eL
           = \<lparr>xp = 1, yp = 2, dX = 30, dY = 40, deltaT = 7, LOD = 8640\<rparr>" by code_simp
  have k: "entryOK ?env 2 demoArgsMixed 2400000 54195
           \<and> lookupEOP ?env demoArgsMixed 2400000 54195
               = ([Call_iauTttai, Call_iauTaiutc, Call_getEOP], Inr ?eL)" by code_simp
  note t = full_override_equivalence [OF h1 h2 h3 h4 h5 h6 h7 h8 h9 h10 h11 h12 h13 h14 h15
        h16 h17 h18 h19 h20 h21 h22 h23 h24 h25 h26 h27 h28 h29 h30 h31 h32,
        where ?TT1'.0 = 2400000 and ?TT2'.0 = 54195 and eL = ?eL and nlhs' = 2
        and evL = "[Call_iauTttai, Call_iauTaiutc, Call_getEOP]"]
  have f: "mexFunction ?env 2 demoArgsMixed
           = ([Call_iauTttai, Call_iauTaiutc, Call_getEOP] @ [Call_iauTtut1] @ composeTrace,
              Inr \<lparr>vec = realDoubleMatrix (mxGetM (demoArgsMixed ! 0)) (mxGetN (demoArgsMixed ! 0))
                     (transformBatch
                        (composedRotation ?env 2400000 54195
                           (fst (iauTtut1 ?env 2400000 54195 (deltaT (mergeEOP demoArgsMixed 7 0 ?eL))))
                           (snd (iauTtut1 ?env 2400000 54195 (deltaT (mergeEOP demoArgsMixed 7 0 ?eL))))
                           (mergeEOP demoArgsMixed 7 0 ?eL))
                        (mxGetM (demoArgsMixed ! 0)) (mxGetN (demoArgsMixed ! 0))
                        (mxGetData (demoArgsMixed ! 0))),
                   rotMat = (if (2::nat) > 1
                     then Some (rotMatOut (GCRS2ITRS
                        (composedRotation ?env 2400000 54195
                           (fst (iauTtut1 ?env 2400000 54195 (deltaT (mergeEOP demoArgsMixed 7 0 ?eL))))
                           (snd (iauTtut1 ?env 2400000 54195 (deltaT (mergeEOP demoArgsMixed 7 0 ?eL))))
                           (mergeEOP demoArgsMixed 7 0 ?eL))))
                     else None)\<rparr>)"
    using t k by blast
  have f1: "fst (mexFunction ?env 2 demoArgsMixed)
            = [Call_iauTttai, Call_iauTaiutc, Call_getEOP] @ [Call_iauTtut1] @ composeTrace"
    by (simp add: f)
  have f2: "rotMat (projr (snd (mexFunction ?env 2 demoArgsMixed)))
            = Some (rotMatOut (GCRS2ITRS (composedRotation ?env 2400000 54195
                (fst (iauTtut1 ?env 2400000 54195 7)) (snd (iauTtut1 ?env 2400000 54195 7))
                \<lparr>xp = 1, yp = 2, dX = 30, dY = 40, deltaT = 7, LOD = 8640\<rparr>)))"
    by (simp add: f m)
  have ao: "applyOverrides ?env demoArgsMixed 2400000 54195 ?eL
            = ([Call_iauTtut1],
               Inr (\<lparr>xp = 1, yp = 2, dX = 30, dY = 40, deltaT = 7, LOD = 8640\<rparr>,
                    iauTtut1 ?env 2400000 54195 7))"
    using t by (simp add: m)
  have nd: "needsEOP demoArgsMixed" using t g by blast
  show ?thesis
    using t h1 h2 h16 g m f1 f2 ao nd by blast
qed

section \<open>The two parts of the epoch\<close>

lemma respectsEpochD:
  assumes "respectsEpoch env" and "a + b = a' + b'"
  shows "fst (iauTttai env a b) = fst (iauTttai env a' b')"
    and "sameEpoch (snd (iauTttai env a b)) (snd (iauTttai env a' b'))"
    and "fst (iauTaiutc env a b) = fst (iauTaiutc env a' b')"
    and "sameEpoch (snd (iauTaiutc env a b)) (snd (iauTaiutc env a' b'))"
    and "getEOP env a b = getEOP env a' b'"
    and "sameEpoch (iauTtut1 env a b d) (iauTtut1 env a' b' d)"
    and "iauXys06a env a b = iauXys06a env a' b'"
    and "iauEra00 env a b = iauEra00 env a' b'"
    and "iauSp00 env a b = iauSp00 env a' b'"
  using assms unfolding respectsEpoch_def by blast+

lemma fetchEOP_epoch:
  assumes "respectsEpoch env" and "a + b = a' + b'"
  shows "fetchEOP env a b = fetchEOP env a' b'"
  by (simp add: fetchEOP_def respectsEpochD(5) [OF assms])

lemma lookupEOP_epoch:
  assumes "respectsEpoch env" and "T1 + T2 = T1' + T2'" and "needsEOP prhs' = needsEOP prhs"
  shows "lookupEOP env prhs' T1' T2' = lookupEOP env prhs T1 T2"
proof -
  obtain s A1 A2 where t: "iauTttai env T1 T2 = (s, A1, A2)"
    by (cases "iauTttai env T1 T2") auto
  obtain s' A1' A2' where t': "iauTttai env T1' T2' = (s', A1', A2')"
    by (cases "iauTttai env T1' T2'") auto
  have s: "s' = s" and A: "A1 + A2 = A1' + A2'"
    using respectsEpochD(1,2) [OF assms(1,2)] by (simp_all add: t t' sameEpoch_def)
  obtain u B1 B2 where c: "iauTaiutc env A1 A2 = (u, B1, B2)"
    by (cases "iauTaiutc env A1 A2") auto
  obtain u' B1' B2' where c': "iauTaiutc env A1' A2' = (u', B1', B2')"
    by (cases "iauTaiutc env A1' A2'") auto
  have u: "u' = u" and B: "B1 + B2 = B1' + B2'"
    using respectsEpochD(3,4) [OF assms(1) A] by (simp_all add: c c' sameEpoch_def)
  have f: "fetchEOP env B1' B2' = fetchEOP env B1 B2"
    using fetchEOP_epoch [OF assms(1) B] by simp
  show ?thesis
    by (simp add: lookupEOP_def assms(3) t t' s c c' u f)
qed

lemma composedRotation_epoch:
  assumes "respectsEpoch env" and "T1 + T2 = T1' + T2'"
  shows "composedRotation env T1' T2'
           (fst (iauTtut1 env T1' T2' d)) (snd (iauTtut1 env T1' T2' d)) e
         = composedRotation env T1 T2
           (fst (iauTtut1 env T1 T2 d)) (snd (iauTtut1 env T1 T2 d)) e"
proof -
  have u: "fst (iauTtut1 env T1 T2 d) + snd (iauTtut1 env T1 T2 d)
           = fst (iauTtut1 env T1' T2' d) + snd (iauTtut1 env T1' T2' d)"
    using respectsEpochD(6) [OF assms] by (simp add: sameEpoch_def)
  show ?thesis
    by (simp add: composedRotation_def respectsEpochD(7) [OF assms]
          respectsEpochD(9) [OF assms] respectsEpochD(8) [OF assms(1) u])
qed

lemma overrides_update12:
  "overrideDeltaT env (prhs[Suc 0 := a1, 2 := a2]) = overrideDeltaT env prhs"
  "overridePolarMotion env (prhs[Suc 0 := a1, 2 := a2]) = overridePolarMotion env prhs"
  "overridePoleOffsets env (prhs[Suc 0 := a1, 2 := a2]) = overridePoleOffsets env prhs"
  "overrideLOD env (prhs[Suc 0 := a1, 2 := a2]) = overrideLOD env prhs"
  by (intro ext,
      simp add: overrideDeltaT_def overridePolarMotion_def overridePoleOffsets_def
        overrideLOD_def)+

lemma needsEOP_update12: "needsEOP (prhs[Suc 0 := a1, 2 := a2]) = needsEOP prhs"
  by (simp add: needsEOP_def)

lemma tail_epoch:
  assumes "respectsEpoch env" and "T1 + T2 = T1' + T2'"
  shows "mexBind (applyOverrides env (prhs[Suc 0 := a1, 2 := a2]) T1' T2' e0)
           (\<lambda>(e, UT11, UT12). mexBind (composeRotation env T1' T2' UT11 UT12 e) K)
         = mexBind (applyOverrides env prhs T1 T2 e0)
           (\<lambda>(e, UT11, UT12). mexBind (composeRotation env T1 T2 UT11 UT12 e) K)"
  by (simp add: applyOverrides_def overrides_update12 mexBind_assoc split_def
        composeRotation_eq composedRotation_epoch [OF assms])

text \<open>
  Claim C8. With collaborators that treat a two-part date as the epoch it stands for,
  two calls whose epochs \<open>(T1, T2)\<close> and \<open>(T1', T2')\<close> have the same sum and whose other
  arguments are the same have the same result: the same vectors and rotation matrix,
  the same trace and warning, or the same error.
\<close>

theorem epoch_split_irrelevant:
  assumes "respectsEpoch env"
    and "getDoubleFromMatlab env (prhs ! 1) = Some T1"
    and "getDoubleFromMatlab env (prhs ! 2) = Some T2"
    and "getDoubleFromMatlab env a1 = Some T1'"
    and "getDoubleFromMatlab env a2 = Some T2'"
    and "T1 + T2 = T1' + T2'"
  shows "mexFunction env nlhs (prhs[1 := a1, 2 := a2]) = mexFunction env nlhs prhs"
proof (cases "length prhs < 3 \<or> length prhs > 7")
  case True
  then show ?thesis by (auto simp add: mexFunction_def)
next
  case False
  then have len: "3 \<le> length prhs" by simp
  have lk: "lookupEOP env (prhs[Suc 0 := a1, 2 := a2]) T1' T2' = lookupEOP env prhs T1 T2"
    by (rule lookupEOP_epoch [OF assms(1,6) needsEOP_update12])
  show ?thesis
    using len assms(2-5)
    by (simp add: mexFunction_def mexGetDoubleFromMatlab_def lk
          tail_epoch [OF assms(1,6)] Let_def)
qed

theorem epoch_split_irrelevant_witness:
  "respectsEpoch epochCollaborators
   \<and> getDoubleFromMatlab epochCollaborators (demoArgs3 ! 1) = Some 2400000
   \<and> getDoubleFromMatlab epochCollaborators (demoArgs3 ! 2) = Some 54195
   \<and> getDoubleFromMatlab epochCollaborators (scalarDouble 2454000) = Some 2454000
   \<and> getDoubleFromMatlab epochCollaborators (scalarDouble 195) = Some 195
   \<and> mexFunction epochCollaborators 2 (demoArgs3[1 := scalarDouble 2454000, 2 := scalarDouble 195])
       = mexFunction epochCollaborators 2 demoArgs3
   \<and> \<not> isl (snd (mexFunction epochCollaborators 2 demoArgs3))
   \<and> mexFunction epochCollaborators 2 (demoArgs3[1 := scalarDouble 2454000, 2 := scalarDouble 196])
       \<noteq> mexFunction epochCollaborators 2 demoArgs3"
proof -
  have r: "respectsEpoch epochCollaborators"
    unfolding respectsEpoch_def sameEpoch_def epochCollaborators_def stubCollaborators_def
    by (simp add: algebra_simps)
  have h2: "getDoubleFromMatlab epochCollaborators (demoArgs3 ! 1) = Some 2400000"
    by code_simp
  have h3: "getDoubleFromMatlab epochCollaborators (demoArgs3 ! 2) = Some 54195"
    by code_simp
  have h4: "getDoubleFromMatlab epochCollaborators (scalarDouble 2454000) = Some 2454000"
    by code_simp
  have h5: "getDoubleFromMatlab epochCollaborators (scalarDouble 195) = Some 195"
    by code_simp
  have h6: "(2400000::real) + 54195 = 2454000 + 195" by simp
  have ok: "\<not> isl (snd (mexFunction epochCollaborators 2 demoArgs3))" by code_simp
  have ne: "mexFunction epochCollaborators 2
              (demoArgs3[1 := scalarDouble 2454000, 2 := scalarDouble 196])
            \<noteq> mexFunction epochCollaborators 2 demoArgs3" by code_simp
  show ?thesis
    using epoch_split_irrelevant [OF r h2 h3 h4 h5 h6, where nlhs = 2] r h2 h3 h4 h5 ok ne
    by blast
qed

end
